theory Spec2Isabelle
  imports Complex_Main "HOL-Library.Word"
begin

section \<open>JavaScript values and errors\<close>

text \<open>
  The webhook handler of \<^verbatim>\<open>backend/server.js\<close> works on the value that
  \<^verbatim>\<open>JSON.parse\<close> returns, without checking its shape, so the model keeps the
  dynamic values of the language. Numbers are exact rationals: the rounding, the
  infinities and NaN of IEEE doubles are not represented (a conversion that gives NaN is
  \<open>None\<close> in \<open>ToNumber\<close>), so a quantity that the parser would read as
  infinite, or a loop counter beyond the exact integers of a double (above \<open>2 ^ 53\<close>
  the increment no longer changes it and the loop of line 74 does not end), is outside
  the model. The counter of the model is exact, which is the counter of the source for
  quantities up to \<open>2 ^ 53\<close>; the statements below that a request is answered, or
  that the loops over a cart of arbitrary lines come to an end, carry this bound.
  Strings are byte strings. An object is the list of its own properties, read with
  \<open>map_of\<close>; no value of a parsed text is a function.
\<close>

datatype jsval =
    JUndefined
  | JNull
  | JBool bool
  | JNum rat
  | JStr string
  | JArr "jsval list"
  | JObj "(string \<times> jsval) list"

datatype js_error =
    TypeError
  | SyntaxError
  | ValidationError
  | MongoNetworkError
  | MongoServerError nat
  | QRCodeError
  | SharpError
  | SendGridError

text \<open>\<^verbatim>\<open>dbError.code\<close>: only a server error of the store carries a numeric code.\<close>

fun error_code :: "js_error \<Rightarrow> nat option" where
  "error_code (MongoServerError c) = Some c"
| "error_code _ = None"

fun nullish :: "jsval \<Rightarrow> bool" where
  "nullish JUndefined = True"
| "nullish JNull = True"
| "nullish _ = False"

text \<open>
  A property read \<^verbatim>\<open>v.k\<close>. Reading a property of \<^verbatim>\<open>undefined\<close> or
  \<^verbatim>\<open>null\<close> throws a TypeError. The handler only reads the names
  \<^verbatim>\<open>event data customer metadata reference amount cart full_name email type quantity name\<close>,
  which no primitive value and no array has, so such a read gives \<^verbatim>\<open>undefined\<close>.
\<close>

fun get_prop :: "jsval \<Rightarrow> string \<Rightarrow> js_error + jsval" where
  "get_prop JUndefined k = Inl TypeError"
| "get_prop JNull k = Inl TypeError"
| "get_prop (JObj kvs) k = Inr (case map_of kvs k of None \<Rightarrow> JUndefined | Some v \<Rightarrow> v)"
| "get_prop v k = Inr JUndefined"

text \<open>Truthiness, as \<^verbatim>\<open>||\<close> tests it.\<close>

fun truthy :: "jsval \<Rightarrow> bool" where
  "truthy JUndefined = False"
| "truthy JNull = False"
| "truthy (JBool b) = b"
| "truthy (JNum q) = (q \<noteq> 0)"
| "truthy (JStr s) = (s \<noteq> [])"
| "truthy (JArr xs) = True"
| "truthy (JObj kvs) = True"

fun join_with :: "string \<Rightarrow> string list \<Rightarrow> string" where
  "join_with sep [] = []"
| "join_with sep [s] = s"
| "join_with sep (s # t # ss) = s @ sep @ join_with sep (t # ss)"

text \<open>The upper-case form of an ASCII character: the letters a to z change, nothing else.\<close>

definition upper_char :: "char \<Rightarrow> char" where
  "upper_char c =
     (case map_of (zip ''abcdefghijklmnopqrstuvwxyz'' ''ABCDEFGHIJKLMNOPQRSTUVWXYZ'') c of
        None \<Rightarrow> c
      | Some u \<Rightarrow> u)"

definition ascii :: "char \<Rightarrow> bool" where
  "ascii c \<longleftrightarrow> (of_char c :: nat) < 128"

text \<open>\<^verbatim>\<open>buffer.toString('hex')\<close>: two lower-case digits for each byte.\<close>

definition hex_digit :: "nat \<Rightarrow> char" where
  "hex_digit n = ''0123456789abcdef'' ! n"

definition hex_byte :: "8 word \<Rightarrow> string" where
  "hex_byte b = [hex_digit (unat b div 16), hex_digit (unat b mod 16)]"

definition to_hex :: "8 word list \<Rightarrow> string" where
  "to_hex bs = concat (map hex_byte bs)"

text \<open>\<^verbatim>\<open>s.split(c)\<close> for a one-character separator.\<close>

fun split_on :: "char \<Rightarrow> string \<Rightarrow> string list" where
  "split_on c [] = [[]]"
| "split_on c (x # xs) =
     (if x = c then [] # split_on c xs
      else (case split_on c xs of [] \<Rightarrow> [[x]] | p # ps \<Rightarrow> (x # p) # ps))"

section \<open>The data model\<close>

text \<open>The Purchase document of \<^verbatim>\<open>backend/models/Purchase.js\<close>.\<close>

record line_item =
  ticketType :: jsval
  quantity :: jsval
  name :: jsval

record purchase =
  buyerName :: jsval
  buyerEmail :: jsval
  inventory :: "line_item list"
  totalAmount :: jsval
  paystackReference :: jsval
  purchaseDate :: nat

datatype schema_type = SchemaString | SchemaNumber

record attachment =
  att_content :: string
  att_filename :: string
  att_type :: string
  att_disposition :: string

record mail =
  mail_to :: jsval
  mail_from :: string
  mail_subject :: string
  mail_html :: string
  mail_attachments :: "attachment list"

text \<open>
  What the handler writes to the console. A value written through a template literal
  appears as the string it converts to.
\<close>

datatype log_line =
    InvalidSignature
  | PurchaseSaved string
  | AlreadyProcessed string
  | DatabaseSaveError js_error
  | PaymentSuccessful string
  | TicketSent string nat string
  | TicketError string nat js_error

text \<open>
  The handler's observable steps, in the order they happen: a console line, the call of
  \<^verbatim>\<open>newPurchase.save()\<close> with the raw reference and how it completed, and the calls
  of the libraries that make and send one ticket.
\<close>

datatype io_event =
    Console log_line
  | LedgerWrite jsval "js_error option"
  | RandomBytes nat
  | QrRender string
  | Composite string
  | MailSend mail bool

record world =
  ledger :: "purchase list"
  outbox :: "mail list"
  trace :: "io_event list"

definition now :: "world \<Rightarrow> nat" where
  "now w = length (trace w)"

definition emit :: "io_event \<Rightarrow> world \<Rightarrow> world" where
  "emit e w = w\<lparr>trace := trace w @ [e]\<rparr>"

text \<open>
  The collaborators the handler calls and the process configuration. Those that touch
  the network or the random source may answer differently at each call, so they take
  the time of the call (\<open>now\<close>: the number of steps recorded so far).
  \<^item> \<open>secret\<close> is \<^verbatim>\<open>process.env.PAYSTACK_SECRET_KEY\<close>, \<open>None\<close> when it is not
    set; \<open>hmac_sha512_hex key msg\<close> is
    \<^verbatim>\<open>crypto.createHmac('sha512', key).update(msg).digest('hex')\<close>.
  \<^item> \<open>JSON_parse\<close> is \<^verbatim>\<open>JSON.parse\<close> on the text of the body; \<open>None\<close> when it
    throws a SyntaxError.
  \<^item> \<open>number_to_string\<close>, \<open>string_to_number\<close> and \<open>unicode_toUpperCase\<close> are
    the runtime's conversions between numbers and strings, and its upper-casing of a
    string that is not ASCII.
  \<^item> \<open>mongoose_cast\<close> is the cast of a value to the type of a schema path; \<open>None\<close>
    when the value cannot be cast.
  \<^item> \<open>store_down t\<close> holds when the store cannot be reached at time \<open>t\<close>;
    \<open>date_now\<close> is \<^verbatim>\<open>Date.now\<close>; \<open>random_source t k\<close> is byte \<open>k\<close> of the
    random bytes drawn at time \<open>t\<close>.
  \<^item> \<open>qrcode_toDataURL\<close> renders a text as a data URL (\<open>None\<close> when it rejects);
    \<open>base64_decode\<close> and \<open>base64_encode\<close> are the \<^verbatim>\<open>Buffer\<close> conversions.
  \<^item> \<open>dirname\<close> and \<open>path_join\<close> are \<^verbatim>\<open>__dirname\<close> and \<^verbatim>\<open>path.join\<close>;
    \<open>assets\<close> maps a path to the bytes of the file there, if any;
    \<open>sharp_composite base overlay top left\<close> is the flattened PNG (\<open>None\<close> when the
    image cannot be processed).
  \<^item> \<open>sendgrid_send t msg\<close> holds when the mail transport accepts the message at
    time \<open>t\<close>.
\<close>

record env =
  secret :: "string option"
  hmac_sha512_hex :: "string \<Rightarrow> string \<Rightarrow> string"
  JSON_parse :: "string \<Rightarrow> jsval option"
  number_to_string :: "rat \<Rightarrow> string"
  unicode_toUpperCase :: "string \<Rightarrow> string"
  string_to_number :: "string \<Rightarrow> rat option"
  mongoose_cast :: "schema_type \<Rightarrow> jsval \<Rightarrow> jsval option"
  store_down :: "nat \<Rightarrow> bool"
  date_now :: "nat \<Rightarrow> nat"
  random_source :: "nat \<Rightarrow> nat \<Rightarrow> 8 word"
  qrcode_toDataURL :: "string \<Rightarrow> string option"
  base64_decode :: "string \<Rightarrow> 8 word list"
  base64_encode :: "8 word list \<Rightarrow> string"
  dirname :: string
  path_join :: "string list \<Rightarrow> string"
  assets :: "string \<Rightarrow> 8 word list option"
  sharp_composite :: "8 word list \<Rightarrow> 8 word list \<Rightarrow> nat \<Rightarrow> nat \<Rightarrow> 8 word list option"
  sendgrid_send :: "nat \<Rightarrow> mail \<Rightarrow> bool"

text \<open>
  A request to the endpoint: the bytes of its body, whether it is one that the
  middleware of line 35, \<^verbatim>\<open>express.raw({ type: 'application/json' })\<close>, reads (it has
  a body and its Content-Type is \<^verbatim>\<open>application/json\<close>), and the
  \<^verbatim>\<open>x-paystack-signature\<close> header, if any. Only for such a request is
  \<^verbatim>\<open>req.body\<close> a Buffer.
\<close>

record request =
  raw_body :: string
  json_content :: bool
  signature_header :: "string option"

definition body :: "request \<Rightarrow> string option" where
  "body req = (if json_content req then Some (raw_body req) else None)"

text \<open>
  How a request ends: with the status the handler sent, or with an error that left the
  handler, which then has sent no status (the framework answers such a request with its
  own error handling, or not at all).
\<close>

datatype outcome = Responded nat | Uncaught js_error

section \<open>Conversions of the language\<close>

text \<open>The first error of a list of results, or all the values.\<close>

fun collect :: "('e + 'a) list \<Rightarrow> 'e + 'a list" where
  "collect [] = Inr []"
| "collect (r # rs) =
     (case r of
        Inl e \<Rightarrow> Inl e
      | Inr x \<Rightarrow> (case collect rs of Inl e \<Rightarrow> Inl e | Inr xs \<Rightarrow> Inr (x # xs)))"

text \<open>
  The conversion to a string that a template literal applies. An object is converted by
  its \<^verbatim>\<open>toString\<close> method: the inherited one gives \<^verbatim>\<open>[object Object]\<close>, but an
  object with a property \<^verbatim>\<open>toString\<close> of its own (which is no function) has no
  method to call, and the conversion throws a TypeError. An array joins the conversions
  of its elements, \<^verbatim>\<open>null\<close> giving the empty string.
\<close>

fun js_toString :: "env \<Rightarrow> jsval \<Rightarrow> js_error + string" where
  "js_toString env JUndefined = Inr ''undefined''"
| "js_toString env JNull = Inr ''null''"
| "js_toString env (JBool b) = Inr (if b then ''true'' else ''false'')"
| "js_toString env (JNum q) = Inr (number_to_string env q)"
| "js_toString env (JStr s) = Inr s"
| "js_toString env (JArr xs) =
     (case collect (map (\<lambda>x. if nullish x then Inr [] else js_toString env x) xs) of
        Inl e \<Rightarrow> Inl e
      | Inr ss \<Rightarrow> Inr (join_with '','' ss))"
| "js_toString env (JObj kvs) =
     (case map_of kvs ''toString'' of
        None \<Rightarrow> Inr ''[object Object]''
      | Some v \<Rightarrow> Inl TypeError)"

text \<open>
  The conversion to a number that \<^verbatim>\<open><\<close> applies to its right side; \<open>None\<close> is NaN.
  An object or an array is first converted as above (its \<^verbatim>\<open>valueOf\<close> gives no
  primitive value), so the conversion throws where that one does.
\<close>

fun ToNumber :: "env \<Rightarrow> jsval \<Rightarrow> js_error + rat option" where
  "ToNumber env JUndefined = Inr None"
| "ToNumber env JNull = Inr (Some 0)"
| "ToNumber env (JBool b) = Inr (Some (if b then 1 else 0))"
| "ToNumber env (JNum q) = Inr (Some q)"
| "ToNumber env (JStr s) = Inr (string_to_number env s)"
| "ToNumber env v =
     (case js_toString env v of Inl e \<Rightarrow> Inl e | Inr s \<Rightarrow> Inr (string_to_number env s))"

text \<open>
  The loop test \<^verbatim>\<open>i < item.quantity\<close> on the quantity read: an error when the
  conversion throws, false when the right side is NaN.
\<close>

definition js_less :: "env \<Rightarrow> nat \<Rightarrow> jsval \<Rightarrow> js_error + bool" where
  "js_less env i v =
     (case ToNumber env v of
        Inl e \<Rightarrow> Inl e
      | Inr None \<Rightarrow> Inr False
      | Inr (Some q) \<Rightarrow> Inr (of_nat i < q))"

text \<open>
  \<^verbatim>\<open>String.prototype.toUpperCase\<close>. On a string of ASCII characters it changes the
  letters a to z and nothing else; on any other string the result is the runtime's.
\<close>

definition toUpperCase :: "env \<Rightarrow> string \<Rightarrow> string" where
  "toUpperCase env s = (if list_all ascii s then map upper_char s else unicode_toUpperCase env s)"

text \<open>\<^verbatim>\<open>for (const item of cart)\<close>: arrays and strings are iterable.\<close>

fun iterate :: "jsval \<Rightarrow> js_error + jsval list" where
  "iterate (JArr xs) = Inr xs"
| "iterate (JStr s) = Inr (map (\<lambda>c. JStr [c]) s)"
| "iterate v = Inl TypeError"

section \<open>The Purchase ledger\<close>

text \<open>
  \<^verbatim>\<open>cart.map(item => ({ ticketType: item.type, quantity: item.quantity, name: item.name }))\<close>:
  only an array has \<^verbatim>\<open>map\<close>; the callback throws on a line that is
  \<^verbatim>\<open>null\<close>.
\<close>

fun map_lines :: "jsval list \<Rightarrow> js_error + line_item list" where
  "map_lines [] = Inr []"
| "map_lines (item # rest) =
     (case get_prop item ''type'' of Inl e \<Rightarrow> Inl e | Inr t \<Rightarrow>
      (case get_prop item ''quantity'' of Inl e \<Rightarrow> Inl e | Inr q \<Rightarrow>
       (case get_prop item ''name'' of Inl e \<Rightarrow> Inl e | Inr n \<Rightarrow>
        (case map_lines rest of Inl e \<Rightarrow> Inl e
         | Inr ls \<Rightarrow> Inr (\<lparr>ticketType = t, quantity = q, name = n\<rparr> # ls)))))"

definition cart_map :: "jsval \<Rightarrow> js_error + line_item list" where
  "cart_map cart = (case cart of JArr items \<Rightarrow> map_lines items | _ \<Rightarrow> Inl TypeError)"

text \<open>\<^verbatim>\<open>new Purchase({...})\<close>, lines 51 to 57; \<open>t\<close> is the time of the call.\<close>

definition new_Purchase ::
  "env \<Rightarrow> jsval \<Rightarrow> jsval \<Rightarrow> jsval \<Rightarrow> jsval \<Rightarrow> jsval \<Rightarrow> nat \<Rightarrow> js_error + purchase" where
  "new_Purchase env customer metadata reference amount cart t =
     (case get_prop metadata ''full_name'' of Inl e \<Rightarrow> Inl e | Inr full_name \<Rightarrow>
      (case get_prop customer ''email'' of Inl e \<Rightarrow> Inl e | Inr email \<Rightarrow>
       (case cart_map cart of Inl e \<Rightarrow> Inl e | Inr items \<Rightarrow>
          Inr \<lparr>buyerName = full_name, buyerEmail = email, inventory = items,
               totalAmount = amount, paystackReference = reference,
               purchaseDate = date_now env t\<rparr>)))"

text \<open>
  The schema of \<^verbatim>\<open>Purchase.js\<close>: every path is cast to its type (the cast itself
  is the library's), and a required path must then hold a non-empty string, or a number.
\<close>

fun check_required :: "schema_type \<Rightarrow> jsval \<Rightarrow> bool" where
  "check_required SchemaString (JStr s) = (s \<noteq> [])"
| "check_required SchemaNumber (JNum q) = True"
| "check_required ty v = False"

definition cast_path :: "env \<Rightarrow> schema_type \<Rightarrow> bool \<Rightarrow> jsval \<Rightarrow> jsval option" where
  "cast_path env ty required v =
     (case mongoose_cast env ty v of
        None \<Rightarrow> None
      | Some v' \<Rightarrow> if required \<and> \<not> check_required ty v' then None else Some v')"

fun cast_inventory :: "env \<Rightarrow> line_item list \<Rightarrow> line_item list option" where
  "cast_inventory env [] = Some []"
| "cast_inventory env (l # ls) =
     (case cast_path env SchemaString False (ticketType l) of None \<Rightarrow> None | Some t \<Rightarrow>
      (case cast_path env SchemaNumber False (quantity l) of None \<Rightarrow> None | Some q \<Rightarrow>
       (case cast_path env SchemaString False (name l) of None \<Rightarrow> None | Some n \<Rightarrow>
        (case cast_inventory env ls of None \<Rightarrow> None
         | Some ls' \<Rightarrow> Some (\<lparr>ticketType = t, quantity = q, name = n\<rparr> # ls')))))"

definition validate :: "env \<Rightarrow> purchase \<Rightarrow> purchase option" where
  "validate env p =
     (case cast_path env SchemaString True (buyerName p) of None \<Rightarrow> None | Some bn \<Rightarrow>
      (case cast_path env SchemaString True (buyerEmail p) of None \<Rightarrow> None | Some be \<Rightarrow>
       (case cast_inventory env (inventory p) of None \<Rightarrow> None | Some items \<Rightarrow>
        (case cast_path env SchemaNumber True (totalAmount p) of None \<Rightarrow> None | Some ta \<Rightarrow>
         (case cast_path env SchemaString True (paystackReference p) of None \<Rightarrow> None
          | Some pr \<Rightarrow>
              Some \<lparr>buyerName = bn, buyerEmail = be, inventory = items, totalAmount = ta,
                    paystackReference = pr, purchaseDate = purchaseDate p\<rparr>)))))"

text \<open>
  \<^verbatim>\<open>newPurchase.save()\<close>: validation, then the insert, which the store refuses
  with code 11000 when a document with the same \<^verbatim>\<open>paystackReference\<close> exists
  (the unique index).
\<close>

definition insert_outcome :: "env \<Rightarrow> purchase \<Rightarrow> world \<Rightarrow> js_error + purchase" where
  "insert_outcome env newPurchase w =
     (case validate env newPurchase of
        None \<Rightarrow> Inl ValidationError
      | Some doc \<Rightarrow>
          if store_down env (now w) then Inl MongoNetworkError
          else if paystackReference doc \<in> set (map paystackReference (ledger w))
          then Inl (MongoServerError 11000)
          else Inr doc)"

definition save :: "env \<Rightarrow> purchase \<Rightarrow> world \<Rightarrow> world \<times> (js_error + unit)" where
  "save env newPurchase w =
     (case insert_outcome env newPurchase w of
        Inl e \<Rightarrow> (emit (LedgerWrite (paystackReference newPurchase) (Some e)) w, Inl e)
      | Inr doc \<Rightarrow>
          (emit (LedgerWrite (paystackReference newPurchase) None)
             (w\<lparr>ledger := ledger w @ [doc]\<rparr>), Inr ()))"

text \<open>
  The body of the first \<^verbatim>\<open>try\<close>, lines 50 to 59. The console line of line 59
  converts the reference; an error of that conversion is caught like one of the save.
\<close>

definition try_save ::
  "env \<Rightarrow> jsval \<Rightarrow> jsval \<Rightarrow> jsval \<Rightarrow> jsval \<Rightarrow> jsval \<Rightarrow> world \<Rightarrow> world \<times> (js_error + unit)" where
  "try_save env customer metadata reference amount cart w =
     (case new_Purchase env customer metadata reference amount cart (now w) of
        Inl e \<Rightarrow> (w, Inl e)
      | Inr newPurchase \<Rightarrow>
          (case save env newPurchase w of
             (w1, Inl e) \<Rightarrow> (w1, Inl e)
           | (w1, Inr u) \<Rightarrow>
               (case js_toString env reference of
                  Inl e \<Rightarrow> (w1, Inl e)
                | Inr ref \<Rightarrow> (emit (Console (PurchaseSaved ref)) w1, Inr ()))))"

section \<open>One ticket\<close>

definition randomBytes :: "env \<Rightarrow> nat \<Rightarrow> nat \<Rightarrow> 8 word list" where
  "randomBytes env n t = map (random_source env t) [0..<n]"

text \<open>
  Line 76: \<^verbatim>\<open>ULES-${item.type.toUpperCase()}-${crypto.randomBytes(4).toString('hex').toUpperCase()}\<close>.
  Only a string has \<^verbatim>\<open>toUpperCase\<close>; the template is evaluated from left to
  right, so the random source is not read when the type is not a string.
\<close>

definition make_ticketId :: "env \<Rightarrow> jsval \<Rightarrow> world \<Rightarrow> world \<times> (js_error + string)" where
  "make_ticketId env item w =
     (case get_prop item ''type'' of
        Inl e \<Rightarrow> (w, Inl e)
      | Inr ty \<Rightarrow>
          (case ty of
             JStr t \<Rightarrow>
               (emit (RandomBytes 4) w,
                Inr (''ULES-'' @ toUpperCase env t @ ''-''
                       @ toUpperCase env (to_hex (randomBytes env 4 (now w)))))
           | _ \<Rightarrow> (w, Inl TypeError)))"

text \<open>
  The message of lines 87 to 98. The subject converts \<^verbatim>\<open>item.name\<close> and the body
  \<^verbatim>\<open>metadata.full_name\<close>; the recipient is passed as it is.
\<close>

definition make_msg ::
  "env \<Rightarrow> jsval \<Rightarrow> jsval \<Rightarrow> jsval \<Rightarrow> string \<Rightarrow> 8 word list \<Rightarrow> js_error + mail" where
  "make_msg env email item_name full_name ticketId finalTicketBuffer =
     (case js_toString env item_name of
        Inl e \<Rightarrow> Inl e
      | Inr nm \<Rightarrow>
          (case js_toString env full_name of
             Inl e \<Rightarrow> Inl e
           | Inr fn \<Rightarrow>
               Inr \<lparr>mail_to = email,
                    mail_from = ''sadiqadetola08@gmail.com'',
                    mail_subject = ''Your ULES Dinner Ticket: '' @ nm,
                    mail_html = ''<h1>Thank You, '' @ fn
                       @ ''!</h1><p>Please find your attached ticket. ID: '' @ ticketId
                       @ ''</p>'',
                    mail_attachments =
                      [\<lparr>att_content = base64_encode env finalTicketBuffer,
                        att_filename = ''ules-ticket-'' @ ticketId @ ''.png'',
                        att_type = ''image/png'',
                        att_disposition = ''attachment''\<rparr>]\<rparr>))"

text \<open>
  Lines 77 and 78: the data URL of the QR code, and the bytes after its first comma.
  \<^verbatim>\<open>Buffer.from(undefined, 'base64')\<close> throws when the URL has no comma.
\<close>

definition qrCodeBuffer :: "env \<Rightarrow> string \<Rightarrow> js_error + 8 word list" where
  "qrCodeBuffer env ticketId =
     (case qrcode_toDataURL env ticketId of
        None \<Rightarrow> Inl QRCodeError
      | Some qrCodeDataUrl \<Rightarrow>
          (case split_on CHR '','' qrCodeDataUrl of
             p # b64 # ps \<Rightarrow> Inr (base64_decode env b64)
           | _ \<Rightarrow> Inl TypeError))"

text \<open>Line 79: the base image is chosen by the ticket type alone.\<close>

definition baseTicketPath :: "env \<Rightarrow> jsval \<Rightarrow> js_error + string" where
  "baseTicketPath env item =
     (case get_prop item ''type'' of
        Inl e \<Rightarrow> Inl e
      | Inr ty \<Rightarrow>
          (case js_toString env ty of
             Inl e \<Rightarrow> Inl e
           | Inr t \<Rightarrow> Inr (path_join env [dirname env, ''assets'', t @ ''-ticket.png''])))"

text \<open>
  Lines 81 to 84: the base image is read from its path and the code is composited on it
  at top 100, left 650. A missing file is an error of this step.
\<close>

definition finalTicketBuffer :: "env \<Rightarrow> string \<Rightarrow> 8 word list \<Rightarrow> js_error + 8 word list" where
  "finalTicketBuffer env path qr =
     (case assets env path of
        None \<Rightarrow> Inl SharpError
      | Some baseTicket \<Rightarrow>
          (case sharp_composite env baseTicket qr 100 650 of
             None \<Rightarrow> Inl SharpError
           | Some buf \<Rightarrow> Inr buf))"

text \<open>
  Lines 86 to 100: the message is built and sent, and the success is written to the
  console, which converts \<^verbatim>\<open>item.name\<close> and \<^verbatim>\<open>customer.email\<close> after the
  message has gone out.
\<close>

definition deliver ::
  "env \<Rightarrow> jsval \<Rightarrow> jsval \<Rightarrow> jsval \<Rightarrow> nat \<Rightarrow> string \<Rightarrow> 8 word list \<Rightarrow> world
     \<Rightarrow> world \<times> (js_error + mail)" where
  "deliver env customer metadata item i ticketId buf w =
     (case get_prop customer ''email'' of
        Inl e \<Rightarrow> (w, Inl e)
      | Inr email \<Rightarrow>
     (case get_prop item ''name'' of
        Inl e \<Rightarrow> (w, Inl e)
      | Inr item_name \<Rightarrow>
     (case get_prop metadata ''full_name'' of
        Inl e \<Rightarrow> (w, Inl e)
      | Inr full_name \<Rightarrow>
     (case make_msg env email item_name full_name ticketId buf of
        Inl e \<Rightarrow> (w, Inl e)
      | Inr msg \<Rightarrow>
          if sendgrid_send env (now w) msg
          then (let w1 = emit (MailSend msg True) (w\<lparr>outbox := outbox w @ [msg]\<rparr>) in
                case js_toString env item_name of
                  Inl e \<Rightarrow> (w1, Inl e)
                | Inr nm \<Rightarrow>
                    (case js_toString env email of
                       Inl e \<Rightarrow> (w1, Inl e)
                     | Inr address \<Rightarrow>
                         (emit (Console (TicketSent nm (i + 1) address)) w1, Inr msg)))
          else (emit (MailSend msg False) w, Inl SendGridError)))))"

text \<open>
  The body of the inner \<^verbatim>\<open>try\<close>, lines 76 to 100, in the order of the source.
  Every failure is a value \<open>Inl\<close>; on success the message that was sent is returned.
\<close>

definition send_ticket ::
  "env \<Rightarrow> jsval \<Rightarrow> jsval \<Rightarrow> jsval \<Rightarrow> nat \<Rightarrow> world \<Rightarrow> world \<times> (js_error + mail)" where
  "send_ticket env customer metadata item i w =
     (case make_ticketId env item w of
        (w1, Inl e) \<Rightarrow> (w1, Inl e)
      | (w1, Inr ticketId) \<Rightarrow>
          (let w2 = emit (QrRender ticketId) w1 in
           case qrCodeBuffer env ticketId of
             Inl e \<Rightarrow> (w2, Inl e)
           | Inr qr \<Rightarrow>
               (case baseTicketPath env item of
                  Inl e \<Rightarrow> (w2, Inl e)
                | Inr path \<Rightarrow>
                    (let w3 = emit (Composite path) w2 in
                     case finalTicketBuffer env path qr of
                       Inl e \<Rightarrow> (w3, Inl e)
                     | Inr buf \<Rightarrow> deliver env customer metadata item i ticketId buf w3))))"

text \<open>
  The inner \<^verbatim>\<open>try\<close> with its \<^verbatim>\<open>catch\<close>, lines 75 to 104. The handler of the
  error reads and converts \<^verbatim>\<open>item.name\<close> itself (line 103), outside every
  \<^verbatim>\<open>try\<close>: an error there leaves the loops.
\<close>

definition ticket_unit ::
  "env \<Rightarrow> jsval \<Rightarrow> jsval \<Rightarrow> jsval \<Rightarrow> nat \<Rightarrow> world \<Rightarrow> world \<times> js_error option" where
  "ticket_unit env customer metadata item i w =
     (case send_ticket env customer metadata item i w of
        (w1, Inr msg) \<Rightarrow> (w1, None)
      | (w1, Inl ticketError) \<Rightarrow>
          (case get_prop item ''name'' of
             Inl e \<Rightarrow> (w1, Some e)
           | Inr item_name \<Rightarrow>
               (case js_toString env item_name of
                  Inl e \<Rightarrow> (w1, Some e)
                | Inr nm \<Rightarrow> (emit (Console (TicketError nm (i + 1) ticketError)) w1, None))))"

section \<open>The loops over the cart\<close>

text \<open>
  \<^verbatim>\<open>for (let i = 0; i < item.quantity; i++)\<close>, from the counter \<open>i\<close> on. The test
  reads and converts \<^verbatim>\<open>item.quantity\<close> outside the inner \<^verbatim>\<open>try\<close>. The counter
  is exact (see the first section).
\<close>

function quantity_loop ::
  "env \<Rightarrow> jsval \<Rightarrow> jsval \<Rightarrow> jsval \<Rightarrow> nat \<Rightarrow> world \<Rightarrow> world \<times> js_error option" where
  "quantity_loop env customer metadata item i w =
     (case get_prop item ''quantity'' of
        Inl e \<Rightarrow> (w, Some e)
      | Inr q \<Rightarrow>
          (case js_less env i q of
             Inl e \<Rightarrow> (w, Some e)
           | Inr go \<Rightarrow>
               if go
               then (case ticket_unit env customer metadata item i w of
                       (w1, Some e) \<Rightarrow> (w1, Some e)
                     | (w1, None) \<Rightarrow> quantity_loop env customer metadata item (Suc i) w1)
               else (w, None)))"
  by pat_completeness auto
termination
proof (relation "measure (\<lambda>(env, customer, metadata, item, i, w).
    case get_prop item ''quantity'' of
      Inl e \<Rightarrow> 0
    | Inr q \<Rightarrow> (case ToNumber env q of Inr (Some r) \<Rightarrow> nat \<lceil>r\<rceil> - i | _ \<Rightarrow> 0))")
  show "wf (measure (\<lambda>(env, customer, metadata, item, i, w).
    case get_prop item ''quantity'' of
      Inl e \<Rightarrow> 0
    | Inr q \<Rightarrow> (case ToNumber env q of Inr (Some r) \<Rightarrow> nat \<lceil>r\<rceil> - i | _ \<Rightarrow> 0)))"
    by simp
next
  fix env :: env and customer metadata item :: jsval and i :: nat and w :: world
    and q :: jsval and go :: bool and x :: "world \<times> js_error option" and w1 :: world
    and y :: "js_error option"
  assume q: "get_prop item ''quantity'' = Inr q" and less: "js_less env i q = Inr go" and go: "go"
  from less go obtain r where r: "ToNumber env q = Inr (Some r)" and ir: "of_nat i < r"
    by (auto simp: js_less_def split: sum.splits option.splits)
  have "of_nat i < (of_int \<lceil>r\<rceil> :: rat)"
    using ir le_of_int_ceiling [of r] by linarith
  then have "int i < \<lceil>r\<rceil>"
    by (metis of_int_less_iff of_int_of_nat_eq)
  then have "i < nat \<lceil>r\<rceil>"
    by linarith
  then show "((env, customer, metadata, item, Suc i, w1), (env, customer, metadata, item, i, w))
      \<in> measure (\<lambda>(env, customer, metadata, item, i, w).
          case get_prop item ''quantity'' of
            Inl e \<Rightarrow> 0
          | Inr q \<Rightarrow> (case ToNumber env q of Inr (Some r) \<Rightarrow> nat \<lceil>r\<rceil> - i | _ \<Rightarrow> 0))"
    using q r by simp
qed

text \<open>\<^verbatim>\<open>for (const item of cart)\<close> over the items of the cart.\<close>

fun cart_loop ::
  "env \<Rightarrow> jsval \<Rightarrow> jsval \<Rightarrow> jsval list \<Rightarrow> world \<Rightarrow> world \<times> js_error option" where
  "cart_loop env customer metadata [] w = (w, None)"
| "cart_loop env customer metadata (item # rest) w =
     (case quantity_loop env customer metadata item 0 w of
        (w1, Some e) \<Rightarrow> (w1, Some e)
      | (w1, None) \<Rightarrow> cart_loop env customer metadata rest w1)"

section \<open>The webhook handler\<close>

text \<open>Line 109 after the loops, or the error that left them.\<close>

fun acknowledge :: "world \<times> js_error option \<Rightarrow> world \<times> outcome" where
  "acknowledge (w, None) = (w, Responded 200)"
| "acknowledge (w, Some e) = (w, Uncaught e)"

text \<open>
  Lines 70 to 109: the console line, which converts \<^verbatim>\<open>customer.email\<close> outside
  every \<^verbatim>\<open>try\<close>, the two loops and the acknowledgment.
\<close>

definition fulfil :: "env \<Rightarrow> jsval \<Rightarrow> jsval \<Rightarrow> jsval \<Rightarrow> world \<Rightarrow> world \<times> outcome" where
  "fulfil env customer metadata cart w =
     (case get_prop customer ''email'' of
        Inl e \<Rightarrow> (w, Uncaught e)
      | Inr email \<Rightarrow>
     (case js_toString env email of
        Inl e \<Rightarrow> (w, Uncaught e)
      | Inr address \<Rightarrow>
     (let w1 = emit (Console (PaymentSuccessful address)) w in
      case iterate cart of
        Inl e \<Rightarrow> (w1, Uncaught e)
      | Inr items \<Rightarrow> acknowledge (cart_loop env customer metadata items w1))))"

text \<open>
  Lines 46 and 47. Destructuring \<^verbatim>\<open>event.data\<close> throws when it is
  \<^verbatim>\<open>undefined\<close> or \<^verbatim>\<open>null\<close>, and so does \<^verbatim>\<open>metadata.cart\<close> on such
  a \<^verbatim>\<open>metadata\<close>; both stand outside every \<^verbatim>\<open>try\<close>. The result is
  \<open>(customer, metadata, reference, amount, cart)\<close>, the cart after \<^verbatim>\<open>|| []\<close>.
\<close>

definition destructure ::
  "jsval \<Rightarrow> js_error + (jsval \<times> jsval \<times> jsval \<times> jsval \<times> jsval)" where
  "destructure event =
     (case get_prop event ''data'' of
        Inl e \<Rightarrow> Inl e
      | Inr data \<Rightarrow>
     (case get_prop data ''customer'' of
        Inl e \<Rightarrow> Inl e
      | Inr customer \<Rightarrow>
     (case get_prop data ''metadata'' of
        Inl e \<Rightarrow> Inl e
      | Inr metadata \<Rightarrow>
     (case get_prop data ''reference'' of
        Inl e \<Rightarrow> Inl e
      | Inr reference \<Rightarrow>
     (case get_prop data ''amount'' of
        Inl e \<Rightarrow> Inl e
      | Inr amount \<Rightarrow>
     (case get_prop metadata ''cart'' of
        Inl e \<Rightarrow> Inl e
      | Inr c \<Rightarrow>
          Inr (customer, metadata, reference, amount, if truthy c then c else JArr [])))))))"

text \<open>
  Lines 46 to 109, the branch of \<^verbatim>\<open>charge.success\<close>. An error of the first
  \<^verbatim>\<open>try\<close> whose code is 11000 ends the request with 200, after a console line
  that converts the reference (line 64, in the \<^verbatim>\<open>catch\<close> block, so outside every
  \<^verbatim>\<open>try\<close>); any other error is written to the console and the handler goes on.
\<close>

definition charge_success :: "env \<Rightarrow> jsval \<Rightarrow> world \<Rightarrow> world \<times> outcome" where
  "charge_success env event w =
     (case destructure event of
        Inl e \<Rightarrow> (w, Uncaught e)
      | Inr (customer, metadata, reference, amount, cart) \<Rightarrow>
          (case try_save env customer metadata reference amount cart w of
             (w1, Inl dbError) \<Rightarrow>
               if error_code dbError = Some 11000
               then (case js_toString env reference of
                       Inl e \<Rightarrow> (w1, Uncaught e)
                     | Inr ref \<Rightarrow> (emit (Console (AlreadyProcessed ref)) w1, Responded 200))
               else fulfil env customer metadata cart
                      (emit (Console (DatabaseSaveError dbError)) w1)
           | (w1, Inr u) \<Rightarrow> fulfil env customer metadata cart w1))"

text \<open>
  Lines 36 and 37: \<^verbatim>\<open>createHmac\<close> throws when the secret is not set, and
  \<^verbatim>\<open>update\<close> throws when \<^verbatim>\<open>req.body\<close> is no Buffer.
\<close>

definition request_hash :: "env \<Rightarrow> request \<Rightarrow> js_error + string" where
  "request_hash env req =
     (case secret env of
        None \<Rightarrow> Inl TypeError
      | Some key \<Rightarrow>
          (case body req of
             None \<Rightarrow> Inl TypeError
           | Some b \<Rightarrow> Inr (hmac_sha512_hex env key b)))"

text \<open>The request passes the check of line 38.\<close>

definition valid_signature :: "env \<Rightarrow> request \<Rightarrow> bool" where
  "valid_signature env req =
     (case request_hash env req of
        Inl e \<Rightarrow> False
      | Inr hash \<Rightarrow> signature_header req = Some hash)"

text \<open>
  The handler of \<^verbatim>\<open>POST /api/paystack-webhook\<close>, lines 35 to 110. The result is the
  world after the request and how the request ended. Past line 37 the body is a Buffer,
  and line 43 parses its text.
\<close>

definition paystack_webhook :: "env \<Rightarrow> request \<Rightarrow> world \<Rightarrow> world \<times> outcome" where
  "paystack_webhook env req w =
     (case request_hash env req of
        Inl e \<Rightarrow> (w, Uncaught e)
      | Inr hash \<Rightarrow>
          if Some hash \<noteq> signature_header req
          then (emit (Console InvalidSignature) w, Responded 401)
          else
            (case JSON_parse env (raw_body req) of
               None \<Rightarrow> (w, Uncaught SyntaxError)
             | Some event \<Rightarrow>
                 (case get_prop event ''event'' of
                    Inl e \<Rightarrow> (w, Uncaught e)
                  | Inr ev \<Rightarrow>
                      if ev = JStr ''charge.success''
                      then charge_success env event w
                      else (w, Responded 200))))"

section \<open>The units of a cart\<close>

text \<open>
  How often the inner loop runs for one line, and the pairs of a line and a counter the
  two loops visit, in their order. \<open>unit_step\<close> is one visit.
\<close>

definition line_count :: "env \<Rightarrow> jsval \<Rightarrow> nat" where
  "line_count env item =
     (case get_prop item ''quantity'' of
        Inl e \<Rightarrow> 0
      | Inr q \<Rightarrow> (case ToNumber env q of Inr (Some r) \<Rightarrow> nat \<lceil>r\<rceil> | _ \<Rightarrow> 0))"

definition units :: "env \<Rightarrow> jsval list \<Rightarrow> (jsval \<times> nat) list" where
  "units env items = concat (map (\<lambda>item. map (Pair item) [0..<line_count env item]) items)"

definition unit_step :: "env \<Rightarrow> jsval \<Rightarrow> jsval \<Rightarrow> world \<Rightarrow> jsval \<times> nat \<Rightarrow> world" where
  "unit_step env customer metadata w u =
     fst (ticket_unit env customer metadata (fst u) (snd u) w)"







section \<open>Shapes of events\<close>

text \<open>
  An event from which the Purchase document can be built: \<^verbatim>\<open>data\<close> and
  \<^verbatim>\<open>metadata\<close> can be read, \<^verbatim>\<open>customer\<close> is neither \<^verbatim>\<open>undefined\<close> nor
  \<^verbatim>\<open>null\<close>, and the cart (after \<^verbatim>\<open>|| []\<close>) is an array with no \<^verbatim>\<open>null\<close>
  line.
\<close>

definition well_shaped :: "jsval \<Rightarrow> bool" where
  "well_shaped event =
     (case destructure event of
        Inl e \<Rightarrow> False
      | Inr (customer, metadata, reference, amount, cart) \<Rightarrow>
          \<not> nullish customer \<and>
          (case cart of JArr items \<Rightarrow> list_all (\<lambda>item. \<not> nullish item) items | _ \<Rightarrow> False))"

text \<open>A value that a template literal can convert.\<close>

definition converts :: "env \<Rightarrow> jsval \<Rightarrow> bool" where
  "converts env v = (case js_toString env v of Inl e \<Rightarrow> False | Inr s \<Rightarrow> True)"

text \<open>
  A line whose name can be converted to a string and whose quantity can be converted to
  a number, as lines 103 and 74 do outside every \<^verbatim>\<open>try\<close>; and a plain line, whose
  loop moreover runs at most \<open>2 ^ 53\<close> times, the range in which the counter of the
  source is exact.
\<close>

definition line_ok :: "env \<Rightarrow> jsval \<Rightarrow> bool" where
  "line_ok env item =
     ((case get_prop item ''name'' of Inl e \<Rightarrow> False | Inr n \<Rightarrow> converts env n) \<and>
      (case get_prop item ''quantity'' of
         Inl e \<Rightarrow> False
       | Inr q \<Rightarrow> (case ToNumber env q of Inl e \<Rightarrow> False | Inr r \<Rightarrow> True)))"

definition plain_line :: "env \<Rightarrow> jsval \<Rightarrow> bool" where
  "plain_line env item = (line_ok env item \<and> line_count env item \<le> 2 ^ 53)"

text \<open>
  A plain event: the Purchase document can be built, \<^verbatim>\<open>customer.email\<close> and the
  reference can be converted to strings (lines 70 and 64), and every line of the cart is
  plain.
\<close>

definition plain_event :: "env \<Rightarrow> jsval \<Rightarrow> bool" where
  "plain_event env event =
     (case destructure event of
        Inl e \<Rightarrow> False
      | Inr (customer, metadata, reference, amount, cart) \<Rightarrow>
          (case get_prop customer ''email'' of Inl e \<Rightarrow> False | Inr email \<Rightarrow> converts env email) \<and>
          converts env reference \<and>
          (case cart of JArr items \<Rightarrow> list_all (plain_line env) items | _ \<Rightarrow> False))"

text \<open>The steps of the inner \<^verbatim>\<open>try\<close> and its \<^verbatim>\<open>catch\<close>: making and sending a ticket.\<close>

fun fulfilment_step :: "io_event \<Rightarrow> bool" where
  "fulfilment_step (RandomBytes n) = True"
| "fulfilment_step (QrRender s) = True"
| "fulfilment_step (Composite p) = True"
| "fulfilment_step (MailSend m ok) = True"
| "fulfilment_step (Console (TicketSent n i e)) = True"
| "fulfilment_step (Console (TicketError n i e)) = True"
| "fulfilment_step e = False"

text \<open>The steps among which no call of \<^verbatim>\<open>save()\<close> is recorded.\<close>

fun no_ledger_write :: "io_event list \<Rightarrow> bool" where
  "no_ledger_write [] = True"
| "no_ledger_write (LedgerWrite r outcome # es) = False"
| "no_ledger_write (e # es) = no_ledger_write es"

section \<open>Sample requests and collaborators\<close>

text \<open>
  The end-to-end scenario of the specification (two regular tickets for
  \<^verbatim>\<open>a@x.com\<close>, reference \<^verbatim>\<open>abc123\<close>), some more bodies, and stand-ins for the
  collaborators: a store that is up, a cast that takes every value but an object or an
  array, a mail transport that accepts every message, and one base image, for the
  regular ticket only.
\<close>

definition regular_line :: "nat \<Rightarrow> jsval" where
  "regular_line n =
     JObj [(''type'', JStr ''regular''), (''quantity'', JNum (of_nat n)),
           (''name'', JStr ''Regular Ticket'')]"

definition vip_line :: "nat \<Rightarrow> jsval" where
  "vip_line n =
     JObj [(''type'', JStr ''vip''), (''quantity'', JNum (of_nat n)),
           (''name'', JStr ''VIP Ticket'')]"

definition jane :: jsval where
  "jane = JObj [(''email'', JStr ''a@x.com'')]"

definition jane_metadata :: jsval where
  "jane_metadata = JObj [(''full_name'', JStr ''Jane Doe''), (''cart'', JArr [regular_line 2])]"

definition paid_body :: string where
  "paid_body = ''{\"event\":\"charge.success\",\"data\":{\"reference\":\"abc123\",\"amount\":500000,\"customer\":{\"email\":\"a@x.com\"},\"metadata\":{\"full_name\":\"Jane Doe\",\"cart\":[{\"type\":\"regular\",\"quantity\":2,\"name\":\"Regular Ticket\"}]}}}''"

definition paid_event :: jsval where
  "paid_event =
     JObj [(''event'', JStr ''charge.success''),
           (''data'', JObj [(''reference'', JStr ''abc123''), (''amount'', JNum 500000),
                            (''customer'', jane), (''metadata'', jane_metadata)])]"

definition no_cart_body :: string where
  "no_cart_body = ''{\"event\":\"charge.success\",\"data\":{\"reference\":\"ref-77\",\"amount\":150000,\"customer\":{\"email\":\"a@x.com\"},\"metadata\":{\"full_name\":\"Jane Doe\"}}}''"

definition no_cart_event :: jsval where
  "no_cart_event =
     JObj [(''event'', JStr ''charge.success''),
           (''data'', JObj [(''reference'', JStr ''ref-77''), (''amount'', JNum 150000),
                            (''customer'', jane),
                            (''metadata'', JObj [(''full_name'', JStr ''Jane Doe'')])])]"

definition bare_body :: string where
  "bare_body = ''{\"event\":\"charge.success\",\"data\":{\"reference\":\"ref-78\",\"amount\":150000,\"customer\":{\"email\":\"a@x.com\"},\"metadata\":{}}}''"

definition bare_event :: jsval where
  "bare_event =
     JObj [(''event'', JStr ''charge.success''),
           (''data'', JObj [(''reference'', JStr ''ref-78''), (''amount'', JNum 150000),
                            (''customer'', jane), (''metadata'', JObj [])])]"

text \<open>A cart whose second line is \<^verbatim>\<open>null\<close>.\<close>

definition null_line_body :: string where
  "null_line_body = ''{\"event\":\"charge.success\",\"data\":{\"reference\":\"ref-79\",\"amount\":250000,\"customer\":{\"email\":\"a@x.com\"},\"metadata\":{\"full_name\":\"Jane Doe\",\"cart\":[{\"type\":\"regular\",\"quantity\":1,\"name\":\"Regular Ticket\"},null]}}}''"

definition null_line_metadata :: jsval where
  "null_line_metadata =
     JObj [(''full_name'', JStr ''Jane Doe''), (''cart'', JArr [regular_line 1, JNull])]"

definition null_line_event :: jsval where
  "null_line_event =
     JObj [(''event'', JStr ''charge.success''),
           (''data'', JObj [(''reference'', JStr ''ref-79''), (''amount'', JNum 250000),
                            (''customer'', jane), (''metadata'', null_line_metadata)])]"

text \<open>
  A cart whose first line is for a ticket type with no base image and has for its name
  an object with a \<^verbatim>\<open>toString\<close> property, followed by a regular line.
\<close>

definition odd_name_line :: jsval where
  "odd_name_line =
     JObj [(''type'', JStr ''vip''), (''quantity'', JNum 1),
           (''name'', JObj [(''toString'', JNum 1)])]"

definition odd_name_body :: string where
  "odd_name_body = ''{\"event\":\"charge.success\",\"data\":{\"reference\":\"ref-80\",\"amount\":750000,\"customer\":{\"email\":\"a@x.com\"},\"metadata\":{\"full_name\":\"Jane Doe\",\"cart\":[{\"type\":\"vip\",\"quantity\":1,\"name\":{\"toString\":1}},{\"type\":\"regular\",\"quantity\":1,\"name\":\"Regular Ticket\"}]}}}''"

definition odd_name_metadata :: jsval where
  "odd_name_metadata =
     JObj [(''full_name'', JStr ''Jane Doe''), (''cart'', JArr [odd_name_line, regular_line 1])]"

definition odd_name_event :: jsval where
  "odd_name_event =
     JObj [(''event'', JStr ''charge.success''),
           (''data'', JObj [(''reference'', JStr ''ref-80''), (''amount'', JNum 750000),
                            (''customer'', jane), (''metadata'', odd_name_metadata)])]"

text \<open>
  A regular line whose quantity is an object with a \<^verbatim>\<open>toString\<close> property,
  and a cart with this line before a regular line.
\<close>

definition odd_quantity_line :: jsval where
  "odd_quantity_line =
     JObj [(''type'', JStr ''regular''), (''quantity'', JObj [(''toString'', JNum 1)]),
           (''name'', JStr ''Regular Ticket'')]"

definition odd_quantity_body :: string where
  "odd_quantity_body = ''{\"event\":\"charge.success\",\"data\":{\"reference\":\"ref-84\",\"amount\":500000,\"customer\":{\"email\":\"a@x.com\"},\"metadata\":{\"full_name\":\"Jane Doe\",\"cart\":[{\"type\":\"regular\",\"quantity\":{\"toString\":1},\"name\":\"Regular Ticket\"},{\"type\":\"regular\",\"quantity\":1,\"name\":\"Regular Ticket\"}]}}}''"

definition odd_quantity_event :: jsval where
  "odd_quantity_event =
     JObj [(''event'', JStr ''charge.success''),
           (''data'', JObj [(''reference'', JStr ''ref-84''), (''amount'', JNum 500000),
                            (''customer'', jane),
                            (''metadata'',
                               JObj [(''full_name'', JStr ''Jane Doe''),
                                     (''cart'', JArr [odd_quantity_line, regular_line 1])])])]"

text \<open>
  The scenario and the event with no cart, with an object with a \<^verbatim>\<open>toString\<close>
  property for \<^verbatim>\<open>customer.email\<close>.
\<close>

definition odd_customer :: jsval where
  "odd_customer = JObj [(''email'', JObj [(''toString'', JNum 1)])]"

definition odd_email_body :: string where
  "odd_email_body = ''{\"event\":\"charge.success\",\"data\":{\"reference\":\"ref-81\",\"amount\":500000,\"customer\":{\"email\":{\"toString\":1}},\"metadata\":{\"full_name\":\"Jane Doe\",\"cart\":[{\"type\":\"regular\",\"quantity\":2,\"name\":\"Regular Ticket\"}]}}}''"

definition odd_email_event :: jsval where
  "odd_email_event =
     JObj [(''event'', JStr ''charge.success''),
           (''data'', JObj [(''reference'', JStr ''ref-81''), (''amount'', JNum 500000),
                            (''customer'', odd_customer), (''metadata'', jane_metadata)])]"

definition odd_email_no_cart_body :: string where
  "odd_email_no_cart_body = ''{\"event\":\"charge.success\",\"data\":{\"reference\":\"ref-82\",\"amount\":150000,\"customer\":{\"email\":{\"toString\":1}},\"metadata\":{\"full_name\":\"Jane Doe\"}}}''"

definition odd_email_no_cart_event :: jsval where
  "odd_email_no_cart_event =
     JObj [(''event'', JStr ''charge.success''),
           (''data'', JObj [(''reference'', JStr ''ref-82''), (''amount'', JNum 150000),
                            (''customer'', odd_customer),
                            (''metadata'', JObj [(''full_name'', JStr ''Jane Doe'')])])]"

text \<open>
  The event with no cart, with an object for its reference that has a string
  \<^verbatim>\<open>_id\<close> and a \<^verbatim>\<open>toString\<close> property.
\<close>

definition id_reference :: jsval where
  "id_reference = JObj [(''_id'', JStr ''ref-83''), (''toString'', JNum 1)]"

definition id_reference_body :: string where
  "id_reference_body = ''{\"event\":\"charge.success\",\"data\":{\"reference\":{\"_id\":\"ref-83\",\"toString\":1},\"amount\":150000,\"customer\":{\"email\":\"a@x.com\"},\"metadata\":{\"full_name\":\"Jane Doe\"}}}''"

definition id_reference_event :: jsval where
  "id_reference_event =
     JObj [(''event'', JStr ''charge.success''),
           (''data'', JObj [(''reference'', id_reference), (''amount'', JNum 150000),
                            (''customer'', jane),
                            (''metadata'', JObj [(''full_name'', JStr ''Jane Doe'')])])]"

definition no_data_body :: string where
  "no_data_body = ''{\"event\":\"charge.success\"}''"

definition no_data_event :: jsval where
  "no_data_event = JObj [(''event'', JStr ''charge.success'')]"

definition transfer_body :: string where
  "transfer_body = ''{\"event\":\"transfer.success\",\"data\":{\"reference\":\"trf-1\"}}''"

definition transfer_event :: jsval where
  "transfer_event =
     JObj [(''event'', JStr ''transfer.success''),
           (''data'', JObj [(''reference'', JStr ''trf-1'')])]"


definition stub_env :: env where
  "stub_env =
     \<lparr>secret = Some ''sk_test_1'',
      hmac_sha512_hex = (\<lambda>key msg. ''hmac-'' @ key @ ''-'' @ msg),
      JSON_parse =
        (\<lambda>s. if s = paid_body then Some paid_event
             else if s = no_cart_body then Some no_cart_event
             else if s = bare_body then Some bare_event
             else if s = null_line_body then Some null_line_event
             else if s = odd_name_body then Some odd_name_event
             else if s = odd_quantity_body then Some odd_quantity_event
             else if s = odd_email_body then Some odd_email_event
             else if s = odd_email_no_cart_body then Some odd_email_no_cart_event
             else if s = id_reference_body then Some id_reference_event
             else if s = no_data_body then Some no_data_event
             else if s = transfer_body then Some transfer_event
             else None),
      number_to_string = (\<lambda>q. ''0''),
      unicode_toUpperCase = (\<lambda>s. s),
      string_to_number = (\<lambda>s. None),
      mongoose_cast =
        (\<lambda>ty v. case v of JArr xs \<Rightarrow> None | JObj kvs \<Rightarrow> None | _ \<Rightarrow> Some v),
      store_down = (\<lambda>t. False),
      date_now = (\<lambda>t. t),
      random_source = (\<lambda>t k. of_nat (16 * t + k)),
      qrcode_toDataURL = (\<lambda>s. Some (''data:image/png;base64,'' @ s)),
      base64_decode = (\<lambda>s. []),
      base64_encode = (\<lambda>bs. ''iVBORw==''),
      dirname = ''/app/backend'',
      path_join = join_with ''/'',
      assets =
        (\<lambda>p. if p = ''/app/backend/assets/regular-ticket.png'' then Some [0x89, 0x50]
             else None),
      sharp_composite = (\<lambda>baseTicket qr top left. Some (baseTicket @ qr)),
      sendgrid_send = (\<lambda>t m. True)\<rparr>"

text \<open>The same collaborators while the store cannot be reached.\<close>

definition outage_env :: env where
  "outage_env = stub_env\<lparr>store_down := (\<lambda>t. True)\<rparr>"

text \<open>
  The same collaborators with a String cast that takes, for an object with a non-empty
  string \<^verbatim>\<open>_id\<close>, that string (the library casts a document passed as a value
  to its identifier); and the same collaborators in a process whose environment does not
  set the secret.
\<close>

definition id_cast_env :: env where
  "id_cast_env =
     stub_env\<lparr>mongoose_cast :=
       (\<lambda>ty v. case v of
                  JArr xs \<Rightarrow> None
                | JObj kvs \<Rightarrow>
                    (case ty of
                       SchemaNumber \<Rightarrow> None
                     | SchemaString \<Rightarrow>
                         (case map_of kvs ''_id'' of
                            Some (JStr i) \<Rightarrow> if i = [] then None else Some (JStr i)
                          | _ \<Rightarrow> None))
                | _ \<Rightarrow> Some v)\<rparr>"

definition no_secret_env :: env where
  "no_secret_env = stub_env\<lparr>secret := None\<rparr>"

text \<open>
  A request with a JSON body and the signature that belongs to it; the scenario with a
  signature that does not; and the scenario sent as \<^verbatim>\<open>text/plain\<close>, again with a
  signature that does not belong to the body.
\<close>

definition signed_req :: "string \<Rightarrow> request" where
  "signed_req b =
     \<lparr>raw_body = b, json_content = True, signature_header = Some (''hmac-sk_test_1-'' @ b)\<rparr>"

definition forged_req :: request where
  "forged_req = \<lparr>raw_body = paid_body, json_content = True, signature_header = Some ''0000''\<rparr>"

definition plain_text_req :: request where
  "plain_text_req =
     \<lparr>raw_body = paid_body, json_content = False, signature_header = Some ''0000''\<rparr>"

definition empty_world :: world where
  "empty_world = \<lparr>ledger = [], outbox = [], trace = []\<rparr>"

text \<open>The document the handler builds for the scenario, before the casts.\<close>

definition jane_purchase :: purchase where
  "jane_purchase =
     \<lparr>buyerName = JStr ''Jane Doe'', buyerEmail = JStr ''a@x.com'',
      inventory = [\<lparr>ticketType = JStr ''regular'', quantity = JNum 2,
                    name = JStr ''Regular Ticket''\<rparr>],
      totalAmount = JNum 500000, paystackReference = JStr ''abc123'', purchaseDate = 0\<rparr>"

text \<open>The scenario delivered once and twice, with the store up and with the store down.\<close>

definition delivered_once :: world where
  "delivered_once = fst (paystack_webhook stub_env (signed_req paid_body) empty_world)"

definition delivered_twice :: world where
  "delivered_twice = fst (paystack_webhook stub_env (signed_req paid_body) delivered_once)"

definition outage_once :: world where
  "outage_once = fst (paystack_webhook outage_env (signed_req paid_body) empty_world)"

definition id_once :: world where
  "id_once = fst (paystack_webhook id_cast_env (signed_req id_reference_body) empty_world)"

definition outage_twice :: world where
  "outage_twice = fst (paystack_webhook outage_env (signed_req paid_body) outage_once)"

section \<open>Basic facts\<close>

declare quantity_loop.simps [simp del]

lemma emit_simps [simp]:
  "ledger (emit e w) = ledger w"
  "outbox (emit e w) = outbox w"
  "trace (emit e w) = trace w @ [e]"
  by (simp_all add: emit_def)

lemma now_emit [simp]: "now (emit e w) = Suc (now w)"
  by (simp add: now_def)

lemma webhook_charge:
  assumes "valid_signature env req"
    and "JSON_parse env (raw_body req) = Some event"
    and "get_prop event ''event'' = Inr (JStr ''charge.success'')"
  shows "paystack_webhook env req w = charge_success env event w"
  using assms by (auto simp: paystack_webhook_def valid_signature_def split: sum.splits)

lemma signed_req_valid: "valid_signature stub_env (signed_req b)"
  by (simp add: valid_signature_def request_hash_def body_def signed_req_def stub_env_def)

lemma signed_req_valid_outage: "valid_signature outage_env (signed_req b)"
  by (simp add: valid_signature_def request_hash_def body_def signed_req_def stub_env_def
      outage_env_def)

section \<open>Signature check and event type\<close>

text \<open>
  When the secret is not set, \<^verbatim>\<open>createHmac\<close> throws at line 37 and no request is
  rejected with 401, whatever its signature.
\<close>

lemma unset_secret_not_rejected:
  "secret no_secret_env = None
   \<and> paystack_webhook no_secret_env forged_req empty_world = (empty_world, Uncaught TypeError)"
  by code_simp

text \<open>
  C2, as stated, fails: the middleware of line 35 reads the body of a request only when
  its Content-Type is \<^verbatim>\<open>application/json\<close>. For the scenario sent as
  \<^verbatim>\<open>text/plain\<close> with a signature that is not the HMAC of its body,
  \<^verbatim>\<open>req.body\<close> is no Buffer, \<^verbatim>\<open>update(req.body)\<close> of line 37 throws before
  the comparison, and the handler ends with no response of its own: no 401 is sent.
\<close>

theorem unread_body_not_rejected:
  "raw_body plain_text_req = paid_body
   \<and> secret stub_env = Some ''sk_test_1''
   \<and> signature_header plain_text_req
       \<noteq> Some (hmac_sha512_hex stub_env ''sk_test_1'' (raw_body plain_text_req))
   \<and> body plain_text_req = None
   \<and> paystack_webhook stub_env plain_text_req empty_world = (empty_world, Uncaught TypeError)"
  by code_simp

text \<open>
  C2, amended. A request whose signature does not verify is processed no further: the
  ledger and the outbox are unchanged and no step of the ledger or of fulfilment is
  recorded. When the secret is set and the middleware has read the body, so that the
  hexadecimal HMAC-SHA512 of the raw body under the secret exists, and this digest
  differs from the signature header (or there is no such header), the handler answers
  401 and writes one console line; for any other request the computation of the digest
  throws and the handler ends with no response of its own.
\<close>

theorem invalid_signature_rejected:
  assumes "\<not> valid_signature env req"
  shows "(case request_hash env req of
            Inr hash \<Rightarrow>
              paystack_webhook env req w
                = (w\<lparr>trace := trace w @ [Console InvalidSignature]\<rparr>, Responded 401)
          | Inl e \<Rightarrow> paystack_webhook env req w = (w, Uncaught e))
       \<and> ledger (fst (paystack_webhook env req w)) = ledger w
       \<and> outbox (fst (paystack_webhook env req w)) = outbox w"
  using assms
  by (auto simp: paystack_webhook_def valid_signature_def emit_def split: sum.splits)

theorem invalid_signature_rejected_witness:
  "\<not> valid_signature stub_env forged_req
   \<and> request_hash stub_env forged_req = Inr (''hmac-sk_test_1-'' @ paid_body)
   \<and> paystack_webhook stub_env forged_req empty_world
       = (\<lparr>ledger = [], outbox = [], trace = [Console InvalidSignature]\<rparr>, Responded 401)"
proof -
  have h1: "request_hash stub_env forged_req = Inr (''hmac-sk_test_1-'' @ paid_body)"
    by (simp add: request_hash_def body_def forged_req_def stub_env_def)
  have h2: "\<not> valid_signature stub_env forged_req"
    by (simp add: valid_signature_def h1) (simp add: forged_req_def)
  show ?thesis
    using h1 h2 invalid_signature_rejected [OF h2, of empty_world]
    by (simp add: empty_world_def)
qed

text \<open>
  C7. A validly signed event whose type is not \<^verbatim>\<open>charge.success\<close> is answered with
  200 and nothing happens: the world after the request is the world before it.
\<close>

theorem other_event_ignored:
  assumes "valid_signature env req"
    and "JSON_parse env (raw_body req) = Some event"
    and "get_prop event ''event'' = Inr ev"
    and "ev \<noteq> JStr ''charge.success''"
  shows "paystack_webhook env req w = (w, Responded 200)"
  using assms by (auto simp: paystack_webhook_def valid_signature_def split: sum.splits)

theorem other_event_ignored_witness:
  "valid_signature stub_env (signed_req transfer_body)
   \<and> JSON_parse stub_env (raw_body (signed_req transfer_body)) = Some transfer_event
   \<and> get_prop transfer_event ''event'' = Inr (JStr ''transfer.success'')
   \<and> JStr ''transfer.success'' \<noteq> JStr ''charge.success''
   \<and> paystack_webhook stub_env (signed_req transfer_body) empty_world
       = (empty_world, Responded 200)"
proof -
  have h1: "valid_signature stub_env (signed_req transfer_body)"
    by (simp add: valid_signature_def request_hash_def body_def signed_req_def stub_env_def)
  have h2: "JSON_parse stub_env (raw_body (signed_req transfer_body)) = Some transfer_event"
    by code_simp
  have h3: "get_prop transfer_event ''event'' = Inr (JStr ''transfer.success'')"
    by (simp add: transfer_event_def)
  have h4: "JStr ''transfer.success'' \<noteq> JStr ''charge.success''"
    by simp
  show ?thesis
    using h1 h2 h3 h4 other_event_ignored [OF h1 h2 h3 h4, of empty_world] by simp
qed

section \<open>The ticket identifier\<close>

lemma hex_digits_upper:
  "\<forall>n \<in> set [0..<16].
     ascii (hex_digit n) \<and> upper_char (hex_digit n) \<in> set ''0123456789ABCDEF''"
  by code_simp

lemma hex_digit_upper:
  "n < 16 \<Longrightarrow> ascii (hex_digit n) \<and> upper_char (hex_digit n) \<in> set ''0123456789ABCDEF''"
  using hex_digits_upper by (metis atLeastLessThan_iff set_upt zero_le)

lemma hex_byte_upper:
  "list_all ascii (hex_byte b) \<and> set (map upper_char (hex_byte b)) \<subseteq> set ''0123456789ABCDEF''"
proof -
  have "unat b < 256"
    using unsigned_less [of b, where ?'a = nat] by simp
  then have "unat b div 16 < 16"
    by arith
  moreover have "unat b mod 16 < 16"
    by simp
  ultimately show ?thesis
    using hex_digit_upper [of "unat b div 16"] hex_digit_upper [of "unat b mod 16"]
    by (simp add: hex_byte_def)
qed

lemma to_hex_ascii: "list_all ascii (to_hex bs)"
  using hex_byte_upper by (induction bs) (simp_all add: to_hex_def)

lemma to_hex_upper: "set (toUpperCase env (to_hex bs)) \<subseteq> set ''0123456789ABCDEF''"
proof -
  have "set (map upper_char (to_hex bs)) \<subseteq> set ''0123456789ABCDEF''"
    using hex_byte_upper by (induction bs) (auto simp: to_hex_def)
  then show ?thesis
    by (simp add: toUpperCase_def to_hex_ascii)
qed

lemma length_to_hex: "length (toUpperCase env (to_hex bs)) = 2 * length bs"
proof -
  have "length (to_hex bs) = 2 * length bs"
    by (induction bs) (simp_all add: to_hex_def hex_byte_def)
  then show ?thesis
    by (simp add: toUpperCase_def to_hex_ascii)
qed

text \<open>
  C8. For an item whose type is a string, the identifier of line 76 is the tag
  \<^verbatim>\<open>ULES\<close>, the type in upper case and a suffix, joined by hyphens; the suffix is
  the upper-case hexadecimal form of 4 bytes of the random source: 8 characters, each
  one of \<^verbatim>\<open>0123456789ABCDEF\<close>. For the type \<^verbatim>\<open>regular\<close> the witness shows
  \<^verbatim>\<open>ULES-REGULAR-00010203\<close>.
\<close>

theorem ticket_identifier_form:
  assumes "get_prop item ''type'' = Inr (JStr t)"
    and "sfx = toUpperCase env (to_hex (randomBytes env 4 (now w)))"
  shows "snd (make_ticketId env item w) = Inr (''ULES-'' @ toUpperCase env t @ ''-'' @ sfx)
       \<and> length (randomBytes env 4 (now w)) = 4
       \<and> length sfx = 8
       \<and> set sfx \<subseteq> set ''0123456789ABCDEF''"
  using assms to_hex_upper [of env "randomBytes env 4 (now w)"]
  by (simp add: make_ticketId_def length_to_hex randomBytes_def)

theorem ticket_identifier_form_witness:
  "get_prop (regular_line 1) ''type'' = Inr (JStr ''regular'')
   \<and> ''00010203'' = toUpperCase stub_env (to_hex (randomBytes stub_env 4 (now empty_world)))
   \<and> snd (make_ticketId stub_env (regular_line 1) empty_world) = Inr ''ULES-REGULAR-00010203''
   \<and> length ''00010203'' = 8"
proof -
  have h1: "get_prop (regular_line 1) ''type'' = Inr (JStr ''regular'')"
    by (simp add: regular_line_def)
  have h2: "''00010203'' = toUpperCase stub_env (to_hex (randomBytes stub_env 4 (now empty_world)))"
    by code_simp
  have u: "toUpperCase stub_env ''regular'' = ''REGULAR''"
    by code_simp
  show ?thesis
    using h1 h2 ticket_identifier_form [OF h1 h2] u by simp
qed

section \<open>The loops visit the units of the cart\<close>

lemma get_prop_ok: "\<not> nullish v \<Longrightarrow> \<exists>x. get_prop v k = Inr x"
  by (cases v) simp_all

lemma get_prop_nullish: "get_prop v k = Inr x \<Longrightarrow> \<not> nullish v"
  by (cases v) simp_all

lemma converts_iff: "converts env v \<longleftrightarrow> (\<exists>s. js_toString env v = Inr s)"
  by (simp add: converts_def split: sum.splits)

lemma make_ticketId_world:
  "make_ticketId env item w = (w1, r) \<Longrightarrow>
     ledger w1 = ledger w \<and> outbox w1 = outbox w \<and> (\<exists>es. trace w1 = trace w @ es)"
  by (auto simp: make_ticketId_def split: sum.splits jsval.splits)

lemma deliver_world:
  "deliver env customer metadata item i ticketId buf w = (w1, r) \<Longrightarrow>
     ledger w1 = ledger w \<and> (\<exists>es. trace w1 = trace w @ es) \<and>
     (\<exists>ms. outbox w1 = outbox w @ ms) \<and>
     (case r of Inl e \<Rightarrow> True | Inr msg \<Rightarrow> outbox w1 = outbox w @ [msg])"
  by (auto simp: deliver_def Let_def split: sum.splits if_splits)

lemma deliver_failure:
  assumes "deliver env customer metadata item i ticketId buf w = (w1, Inl e)"
    and "get_prop customer ''email'' = Inr email" and "js_toString env email = Inr address"
    and "get_prop item ''name'' = Inr n" and "js_toString env n = Inr nm"
  shows "outbox w1 = outbox w"
  using assms by (auto simp: deliver_def Let_def split: sum.splits if_splits)

lemma send_ticket_world:
  "send_ticket env customer metadata item i w = (w1, r) \<Longrightarrow>
     ledger w1 = ledger w \<and> (\<exists>es. trace w1 = trace w @ es) \<and>
     (\<exists>ms. outbox w1 = outbox w @ ms) \<and>
     (case r of Inl e \<Rightarrow> True | Inr msg \<Rightarrow> outbox w1 = outbox w @ [msg])"
  unfolding send_ticket_def
  by (auto simp: Let_def split: sum.splits prod.splits dest!: make_ticketId_world deliver_world)

lemma send_ticket_failure:
  assumes "send_ticket env customer metadata item i w = (w1, Inl e)"
    and "get_prop customer ''email'' = Inr email" and "js_toString env email = Inr address"
    and "get_prop item ''name'' = Inr n" and "js_toString env n = Inr nm"
  shows "outbox w1 = outbox w"
  using assms(1) deliver_failure [OF _ assms(2-5)]
  unfolding send_ticket_def
  by (auto simp: Let_def split: sum.splits prod.splits dest!: make_ticketId_world)

lemma ticket_unit_world:
  "ticket_unit env customer metadata item i w = (w1, r) \<Longrightarrow>
     ledger w1 = ledger w \<and> (\<exists>es. trace w1 = trace w @ es) \<and> (\<exists>ms. outbox w1 = outbox w @ ms)"
  unfolding ticket_unit_def
  by (auto split: sum.splits prod.splits dest!: send_ticket_world)

lemma line_ok_fields:
  assumes "line_ok env item"
  obtains n nm q r where "get_prop item ''name'' = Inr n" and "js_toString env n = Inr nm"
    and "get_prop item ''quantity'' = Inr q" and "ToNumber env q = Inr r"
  using assms by (auto simp: line_ok_def converts_def split: sum.splits)

lemma ticket_unit_completes:
  "line_ok env item \<Longrightarrow> snd (ticket_unit env customer metadata item i w) = None"
  unfolding ticket_unit_def
  by (auto elim!: line_ok_fields split: sum.splits prod.splits)

lemma js_less_count:
  assumes "get_prop item ''quantity'' = Inr q" and "ToNumber env q = Inr r"
  shows "js_less env i q = Inr (i < line_count env item)"
proof (cases r)
  case None
  with assms show ?thesis by (simp add: js_less_def line_count_def)
next
  case (Some x)
  have "of_nat i < x \<longleftrightarrow> int i < \<lceil>x\<rceil>"
    by (simp add: less_ceiling_iff)
  also have "\<dots> \<longleftrightarrow> i < nat \<lceil>x\<rceil>"
    by linarith
  finally show ?thesis
    using Some assms by (simp add: js_less_def line_count_def)
qed

lemma quantity_loop_fold:
  assumes "line_ok env item"
  shows "quantity_loop env customer metadata item i w
           = (foldl (unit_step env customer metadata) w
                (map (Pair item) [i..<line_count env item]), None)"
proof (induction "line_count env item - i" arbitrary: i w)
  case 0
  from assms obtain q r where q: "get_prop item ''quantity'' = Inr q"
    and r: "ToNumber env q = Inr r"
    by (auto elim: line_ok_fields)
  from 0 have "\<not> i < line_count env item" by simp
  then show ?case
    using q js_less_count [OF q r, of i] by (simp add: quantity_loop.simps)
next
  case (Suc n)
  from assms obtain q r where q: "get_prop item ''quantity'' = Inr q"
    and r: "ToNumber env q = Inr r"
    by (auto elim: line_ok_fields)
  from Suc.hyps(2) have lt: "i < line_count env item" by simp
  obtain w1 res where tu: "ticket_unit env customer metadata item i w = (w1, res)"
    by (cases "ticket_unit env customer metadata item i w")
  have res: "res = None"
    using ticket_unit_completes [OF assms, of customer metadata i w] tu by simp
  have ih: "quantity_loop env customer metadata item (Suc i) w1
           = (foldl (unit_step env customer metadata) w1
                (map (Pair item) [Suc i..<line_count env item]), None)"
    using Suc.hyps(1) [of "Suc i" w1] Suc.hyps(2) by simp
  have "[i..<line_count env item] = i # [Suc i..<line_count env item]"
    using lt by (simp add: upt_conv_Cons)
  then show ?case
    using q lt tu res ih js_less_count [OF q r, of i]
    by (simp add: quantity_loop.simps [of env customer metadata item i w] unit_step_def)
qed

lemma cart_loop_fold:
  assumes "list_all (line_ok env) items"
  shows "cart_loop env customer metadata items w
           = (foldl (unit_step env customer metadata) w (units env items), None)"
  using assms
proof (induction items arbitrary: w)
  case Nil
  then show ?case by (simp add: units_def)
next
  case (Cons item rest)
  then show ?case
    by (simp add: units_def quantity_loop_fold)
qed

lemma plain_lines_ok: "list_all (plain_line env) items \<Longrightarrow> list_all (line_ok env) items"
  by (induction items) (simp_all add: plain_line_def)

lemma unit_step_world:
  "ledger (unit_step env customer metadata w u) = ledger w \<and>
   (\<exists>es. trace (unit_step env customer metadata w u) = trace w @ es) \<and>
   (\<exists>ms. outbox (unit_step env customer metadata w u) = outbox w @ ms)"
  using ticket_unit_world [of env customer metadata "fst u" "snd u" w]
  by (cases "ticket_unit env customer metadata (fst u) (snd u) w") (simp add: unit_step_def)

lemma foldl_unit_step_world:
  "ledger (foldl (unit_step env customer metadata) w us) = ledger w \<and>
   (\<exists>es. trace (foldl (unit_step env customer metadata) w us) = trace w @ es) \<and>
   (\<exists>ms. outbox (foldl (unit_step env customer metadata) w us) = outbox w @ ms)"
proof (induction us arbitrary: w)
  case Nil
  then show ?case by simp
next
  case (Cons u us)
  from unit_step_world [of env customer metadata w u] Cons [of "unit_step env customer metadata w u"]
  show ?case by auto
qed










section \<open>A failing unit does not stop the others\<close>

lemma units_item_in_cart: "(item, j) \<in> set (units env items) \<Longrightarrow> item \<in> set items"
  by (auto simp: units_def)

lemma unit_step_success:
  assumes "snd (send_ticket env customer metadata item j w) = Inr msg"
  shows "msg \<in> set (outbox (unit_step env customer metadata w (item, j)))"
proof -
  obtain w1 where s: "send_ticket env customer metadata item j w = (w1, Inr msg)"
    using assms by (cases "send_ticket env customer metadata item j w") simp
  from send_ticket_world [OF s] have "outbox w1 = outbox w @ [msg]"
    by simp
  then show ?thesis
    using s by (simp add: unit_step_def ticket_unit_def)
qed

lemma unit_step_failure:
  assumes "snd (send_ticket env customer metadata item j w) = Inl e"
    and "get_prop customer ''email'' = Inr email" and "js_toString env email = Inr address"
    and "get_prop item ''name'' = Inr n" and "js_toString env n = Inr nm"
  shows "outbox (unit_step env customer metadata w (item, j)) = outbox w
       \<and> Console (TicketError nm (j + 1) e)
           \<in> set (trace (unit_step env customer metadata w (item, j)))"
proof -
  obtain w1 where s: "send_ticket env customer metadata item j w = (w1, Inl e)"
    using assms(1) by (cases "send_ticket env customer metadata item j w") simp
  from send_ticket_failure [OF s assms(2-5)] have "outbox w1 = outbox w" .
  then show ?thesis
    using s assms(4,5) by (simp add: unit_step_def ticket_unit_def)
qed

lemma foldl_unit_step_keeps:
  "set (outbox w) \<subseteq> set (outbox (foldl (unit_step env customer metadata) w us))
   \<and> set (trace w) \<subseteq> set (trace (foldl (unit_step env customer metadata) w us))"
  using foldl_unit_step_world [of env customer metadata w us] by auto

text \<open>
  C3, as stated, fails: the \<^verbatim>\<open>catch\<close> of a unit converts \<^verbatim>\<open>item.name\<close> for its
  console line (line 103), outside every \<^verbatim>\<open>try\<close>. In the cart below the first
  line is for a ticket type with no base image, so its unit fails, and its name is an
  object with a \<^verbatim>\<open>toString\<close> property, so logging the failure throws a TypeError:
  the loops are left, the unit of the regular line, which is fulfilled when it stands
  alone, gets no ticket, and the request ends with no response. The test of the inner
  loop converts \<^verbatim>\<open>item.quantity\<close> (line 74) outside every \<^verbatim>\<open>try\<close> as well:
  after the failing unit of a line with no base image, a line whose quantity is such an
  object ends the loops before the regular line behind it.
\<close>

theorem failing_unit_stops_cart:
  "valid_signature stub_env (signed_req odd_name_body)
   \<and> JSON_parse stub_env (raw_body (signed_req odd_name_body)) = Some odd_name_event
   \<and> destructure odd_name_event
       = Inr (jane, odd_name_metadata, JStr ''ref-80'', JNum 750000,
              JArr [odd_name_line, regular_line 1])
   \<and> snd (send_ticket stub_env jane odd_name_metadata odd_name_line 0 empty_world)
       = Inl SharpError
   \<and> snd (cart_loop stub_env jane odd_name_metadata [odd_name_line, regular_line 1] empty_world)
       = Some TypeError
   \<and> outbox (fst (cart_loop stub_env jane odd_name_metadata [odd_name_line, regular_line 1]
        empty_world)) = []
   \<and> length (outbox (fst (cart_loop stub_env jane odd_name_metadata [regular_line 1]
        empty_world))) = 1
   \<and> snd (paystack_webhook stub_env (signed_req odd_name_body) empty_world) = Uncaught TypeError
   \<and> outbox (fst (paystack_webhook stub_env (signed_req odd_name_body) empty_world)) = []
   \<and> snd (send_ticket stub_env jane jane_metadata (vip_line 1) 0 empty_world) = Inl SharpError
   \<and> snd (cart_loop stub_env jane jane_metadata
        [vip_line 1, odd_quantity_line, regular_line 1] empty_world) = Some TypeError
   \<and> outbox (fst (cart_loop stub_env jane jane_metadata
        [vip_line 1, odd_quantity_line, regular_line 1] empty_world)) = []"
  by code_simp

text \<open>
  C3, amended. Take a cart of plain lines (every name can be converted to a string,
  every quantity to a number, at most \<open>2 ^ 53\<close>) and a customer whose email can be
  converted to a string. The two loops complete, whatever happens to single units. Take
  any unit of the cart, the \<open>k\<close>-th the loops visit, and the world \<open>wk\<close> in which
  its turn comes. If its own steps succeed there (identifier, QR code, base image,
  composition, dispatch), its message is in the outbox at the end, whatever failed
  before or fails after it. If one of its steps fails, the unit sends nothing and leaves
  one error line on the console, and the loops go on.
\<close>

theorem unit_failure_isolated:
  assumes "list_all (plain_line env) items"
    and "get_prop customer ''email'' = Inr email"
    and "js_toString env email = Inr address"
    and "k < length (units env items)"
    and "units env items ! k = (item, j)"
    and "wk = foldl (unit_step env customer metadata) w (take k (units env items))"
    and "cart_loop env customer metadata items w = (w', r)"
  shows "r = None \<and>
     (case snd (send_ticket env customer metadata item j wk) of
        Inr msg \<Rightarrow> msg \<in> set (outbox w')
      | Inl e \<Rightarrow>
          outbox (unit_step env customer metadata wk (item, j)) = outbox wk \<and>
          (case get_prop item ''name'' of
             Inl e' \<Rightarrow> False
           | Inr n \<Rightarrow>
               (case js_toString env n of
                  Inl e' \<Rightarrow> False
                | Inr nm \<Rightarrow> Console (TicketError nm (j + 1) e) \<in> set (trace w'))))"
proof -
  let ?us = "units env items"
  let ?step = "unit_step env customer metadata"
  have ok: "list_all (line_ok env) items"
    using assms(1) by (rule plain_lines_ok)
  have fold: "cart_loop env customer metadata items w = (foldl ?step w ?us, None)"
    using ok by (rule cart_loop_fold)
  with assms(7) have r: "r = None" and w': "w' = foldl ?step w ?us"
    by simp_all
  have "?us = take k ?us @ (item, j) # drop (Suc k) ?us"
    using assms(4,5) by (metis id_take_nth_drop)
  then have "foldl ?step w ?us = foldl ?step (?step wk (item, j)) (drop (Suc k) ?us)"
    using assms(6) by (metis foldl_Cons foldl_append)
  with w' have final: "w' = foldl ?step (?step wk (item, j)) (drop (Suc k) ?us)"
    by simp
  have "(item, j) \<in> set ?us"
    using assms(4,5) by (metis nth_mem)
  then have "item \<in> set items"
    by (rule units_item_in_cart)
  with ok have "line_ok env item"
    by (simp add: list_all_iff)
  then obtain n nm where n: "get_prop item ''name'' = Inr n" and nm: "js_toString env n = Inr nm"
    by (auto elim: line_ok_fields)
  show ?thesis
  proof (cases "snd (send_ticket env customer metadata item j wk)")
    case (Inr msg)
    then have "msg \<in> set (outbox (?step wk (item, j)))"
      by (rule unit_step_success)
    then have "msg \<in> set (outbox w')"
      using final foldl_unit_step_keeps [of "?step wk (item, j)" env customer metadata
          "drop (Suc k) ?us"] by auto
    then show ?thesis
      using r Inr by simp
  next
    case (Inl e)
    from unit_step_failure [OF Inl assms(2,3) n nm]
    have a: "outbox (?step wk (item, j)) = outbox wk"
      and b: "Console (TicketError nm (j + 1) e) \<in> set (trace (?step wk (item, j)))"
      by simp_all
    from b have "Console (TicketError nm (j + 1) e) \<in> set (trace w')"
      using final foldl_unit_step_keeps [of "?step wk (item, j)" env customer metadata
          "drop (Suc k) ?us"] by auto
    then show ?thesis
      using r Inl a n nm by simp
  qed
qed

theorem unit_failure_isolated_witness:
  "list_all (plain_line stub_env) [vip_line 1, regular_line 1]
   \<and> get_prop jane ''email'' = Inr (JStr ''a@x.com'')
   \<and> js_toString stub_env (JStr ''a@x.com'') = Inr ''a@x.com''
   \<and> 1 < length (units stub_env [vip_line 1, regular_line 1])
   \<and> units stub_env [vip_line 1, regular_line 1] ! 1 = (regular_line 1, 0)
   \<and> snd (cart_loop stub_env jane jane_metadata [vip_line 1, regular_line 1] empty_world) = None
   \<and> (case snd (send_ticket stub_env jane jane_metadata (regular_line 1) 0
          (foldl (unit_step stub_env jane jane_metadata) empty_world
             (take 1 (units stub_env [vip_line 1, regular_line 1])))) of
        Inr msg \<Rightarrow> msg \<in> set (outbox (fst (cart_loop stub_env jane jane_metadata
            [vip_line 1, regular_line 1] empty_world)))
      | Inl e \<Rightarrow> False)
   \<and> snd (send_ticket stub_env jane jane_metadata (vip_line 1) 0 empty_world) = Inl SharpError
   \<and> Console (TicketError ''VIP Ticket'' 1 SharpError)
       \<in> set (trace (fst (cart_loop stub_env jane jane_metadata
            [vip_line 1, regular_line 1] empty_world)))
   \<and> length (outbox (fst (cart_loop stub_env jane jane_metadata
            [vip_line 1, regular_line 1] empty_world))) = 1"
proof -
  let ?items = "[vip_line 1, regular_line 1]"
  let ?wk = "foldl (unit_step stub_env jane jane_metadata) empty_world
             (take 1 (units stub_env ?items))"
  let ?w' = "fst (cart_loop stub_env jane jane_metadata ?items empty_world)"
  have lo: "line_ok stub_env (vip_line 1)" "line_ok stub_env (regular_line 1)"
    by code_simp+
  have lc: "line_count stub_env (vip_line 1) = 1" "line_count stub_env (regular_line 1) = 1"
    by code_simp+
  have h1: "list_all (plain_line stub_env) ?items"
    using lo lc by (simp add: plain_line_def)
  have h2: "get_prop jane ''email'' = Inr (JStr ''a@x.com'')"
    by (simp add: jane_def)
  have h3: "js_toString stub_env (JStr ''a@x.com'') = Inr ''a@x.com''"
    by simp
  have h4: "1 < length (units stub_env ?items)"
    by code_simp
  have h5: "units stub_env ?items ! 1 = (regular_line 1, 0)"
    by code_simp
  have ok: "case snd (send_ticket stub_env jane jane_metadata (regular_line 1) 0 ?wk) of
        Inr msg \<Rightarrow> True | Inl e \<Rightarrow> False"
    by code_simp
  have f: "snd (send_ticket stub_env jane jane_metadata (vip_line 1) 0 empty_world) = Inl SharpError"
    by code_simp
  have t: "Console (TicketError ''VIP Ticket'' 1 SharpError) \<in> set (trace ?w')"
    by code_simp
  have n: "length (outbox ?w') = 1"
    by code_simp
  from unit_failure_isolated [OF h1 h2 h3 h4 h5 refl, of jane_metadata empty_world ?w'
      "snd (cart_loop stub_env jane jane_metadata ?items empty_world)"]
  have c: "snd (cart_loop stub_env jane jane_metadata ?items empty_world) = None \<and>
     (case snd (send_ticket stub_env jane jane_metadata (regular_line 1) 0 ?wk) of
        Inr msg \<Rightarrow> msg \<in> set (outbox ?w')
      | Inl e \<Rightarrow>
          outbox (unit_step stub_env jane jane_metadata ?wk (regular_line 1, 0)) = outbox ?wk \<and>
          (case get_prop (regular_line 1) ''name'' of
             Inl e' \<Rightarrow> False
           | Inr n \<Rightarrow>
               (case js_toString stub_env n of
                  Inl e' \<Rightarrow> False
                | Inr nm \<Rightarrow> Console (TicketError nm (0 + 1) e) \<in> set (trace ?w'))))"
    by simp
  from ok c have "case snd (send_ticket stub_env jane jane_metadata (regular_line 1) 0 ?wk) of
        Inr msg \<Rightarrow> msg \<in> set (outbox ?w') | Inl e \<Rightarrow> False"
    by (auto split: sum.splits)
  with h1 h2 h3 h4 h5 c f t n show ?thesis
    by blast
qed

section \<open>The ledger write and what follows it\<close>

lemma paid_event_fields:
  "destructure paid_event
     = Inr (jane, jane_metadata, JStr ''abc123'', JNum 500000, JArr [regular_line 2])"
  by code_simp

lemma map_lines_not_nullish: "map_lines items = Inr ls \<Longrightarrow> list_all (\<lambda>item. \<not> nullish item) items"
proof (induction items arbitrary: ls)
  case Nil
  then show ?case by simp
next
  case (Cons item rest)
  then show ?case
    by (cases item) (auto split: sum.splits)
qed

lemma map_lines_ok: "list_all (\<lambda>item. \<not> nullish item) items \<Longrightarrow> \<exists>ls. map_lines items = Inr ls"
proof (induction items)
  case Nil
  then show ?case by simp
next
  case (Cons item rest)
  then obtain ls where "map_lines rest = Inr ls"
    by auto
  moreover from Cons.prems have "\<not> nullish item"
    by simp
  then obtain t q n where "get_prop item ''type'' = Inr t"
    "get_prop item ''quantity'' = Inr q" "get_prop item ''name'' = Inr n"
    using get_prop_ok by metis
  ultimately show ?case
    by simp
qed

lemma new_Purchase_shape:
  assumes "new_Purchase env customer metadata reference amount cart t = Inr p"
  shows "\<not> nullish customer \<and> (\<exists>items. cart = JArr items \<and> list_all (\<lambda>item. \<not> nullish item) items)
       \<and> paystackReference p = reference"
  using assms
  by (auto simp: new_Purchase_def cart_map_def
      split: sum.splits jsval.splits dest: get_prop_nullish map_lines_not_nullish)

lemma new_Purchase_ok:
  assumes "\<not> nullish customer" and "\<not> nullish metadata"
    and "list_all (\<lambda>item. \<not> nullish item) items"
  shows "\<exists>p. new_Purchase env customer metadata reference amount (JArr items) t = Inr p"
proof -
  obtain fn where "get_prop metadata ''full_name'' = Inr fn"
    using assms(2) get_prop_ok by blast
  moreover obtain em where "get_prop customer ''email'' = Inr em"
    using assms(1) get_prop_ok by blast
  moreover obtain ls where "map_lines items = Inr ls"
    using assms(3) map_lines_ok by blast
  ultimately show ?thesis
    by (simp add: new_Purchase_def cart_map_def)
qed

lemma quantity_loop_world:
  "quantity_loop env customer metadata item i w = (w', r) \<Longrightarrow>
     ledger w' = ledger w \<and> (\<exists>es. trace w' = trace w @ es) \<and> (\<exists>ms. outbox w' = outbox w @ ms)"
proof (induction env customer metadata item i w rule: quantity_loop.induct)
  case (1 env customer metadata item i w)
  note run = "1.prems"
  show ?case
  proof (cases "get_prop item ''quantity''")
    case (Inl e)
    with run show ?thesis
      by (simp add: quantity_loop.simps [of env customer metadata item i w])
  next
    case (Inr q)
    show ?thesis
    proof (cases "js_less env i q")
      case (Inl e)
      with Inr run show ?thesis
        by (simp add: quantity_loop.simps [of env customer metadata item i w])
    next
      case less: (Inr go)
      show ?thesis
      proof (cases go)
        case False
        with Inr less run show ?thesis
          by (simp add: quantity_loop.simps [of env customer metadata item i w])
      next
        case True
        obtain w1 res where tu: "ticket_unit env customer metadata item i w = (w1, res)"
          by (cases "ticket_unit env customer metadata item i w")
        note step = ticket_unit_world [OF tu]
        show ?thesis
        proof (cases res)
          case (Some e)
          with Inr less True tu run have "w' = w1"
            by (simp add: quantity_loop.simps [of env customer metadata item i w])
          with step show ?thesis
            by simp
        next
          case None
          with Inr less True tu run
          have "quantity_loop env customer metadata item (Suc i) w1 = (w', r)"
            by (simp add: quantity_loop.simps [of env customer metadata item i w])
          from "1.IH" [OF Inr less True tu [symmetric] None this] step show ?thesis
            by auto
        qed
      qed
    qed
  qed
qed

lemma cart_loop_world:
  "cart_loop env customer metadata items w = (w', r) \<Longrightarrow>
     ledger w' = ledger w \<and> (\<exists>es. trace w' = trace w @ es) \<and> (\<exists>ms. outbox w' = outbox w @ ms)"
proof (induction items arbitrary: w)
  case Nil
  then show ?case by simp
next
  case (Cons item rest)
  obtain w1 res where q: "quantity_loop env customer metadata item 0 w = (w1, res)"
    by (cases "quantity_loop env customer metadata item 0 w")
  note step = quantity_loop_world [OF q]
  show ?case
  proof (cases res)
    case (Some e)
    with q Cons.prems have "w' = w1"
      by simp
    with step show ?thesis
      by simp
  next
    case None
    with q Cons.prems have "cart_loop env customer metadata rest w1 = (w', r)"
      by simp
    from Cons.IH [OF this] step show ?thesis
      by auto
  qed
qed

lemma acknowledge_fst: "fst (acknowledge x) = fst x"
  by (cases x rule: acknowledge.cases) simp_all

lemma fulfil_world:
  assumes "fulfil env customer metadata cart w = (w', r)"
  shows "ledger w' = ledger w \<and> (\<exists>es. trace w' = trace w @ es) \<and> (\<exists>ms. outbox w' = outbox w @ ms)"
proof -
  have loop: "ledger (fst (acknowledge (cart_loop env customer metadata items v))) = ledger v
      \<and> (\<exists>es. trace (fst (acknowledge (cart_loop env customer metadata items v))) = trace v @ es)
      \<and> (\<exists>ms. outbox (fst (acknowledge (cart_loop env customer metadata items v))) = outbox v @ ms)"
    for items v
    using cart_loop_world [of env customer metadata items v]
    by (cases "cart_loop env customer metadata items v") (simp add: acknowledge_fst)
  have "w' = fst (fulfil env customer metadata cart w)"
    using assms by simp
  then show ?thesis
    using loop [of _ "emit (Console (PaymentSuccessful a)) w" for a]
    by (auto simp: fulfil_def Let_def split: sum.splits)
qed

lemma fulfil_plain:
  assumes "get_prop customer ''email'' = Inr email"
    and "js_toString env email = Inr address"
    and "list_all (line_ok env) items"
  shows "fulfil env customer metadata (JArr items) w
       = (foldl (unit_step env customer metadata) (emit (Console (PaymentSuccessful address)) w)
            (units env items), Responded 200)"
  using assms by (simp add: fulfil_def cart_loop_fold)

lemma try_save_cases:
  assumes "new_Purchase env customer metadata reference amount cart (now w) = Inr p"
  shows "try_save env customer metadata reference amount cart w =
     (case insert_outcome env p w of
        Inl e \<Rightarrow> (emit (LedgerWrite reference (Some e)) w, Inl e)
      | Inr doc \<Rightarrow>
          (case js_toString env reference of
             Inl e \<Rightarrow> (emit (LedgerWrite reference None) (w\<lparr>ledger := ledger w @ [doc]\<rparr>), Inl e)
           | Inr ref \<Rightarrow>
               (emit (Console (PurchaseSaved ref))
                  (emit (LedgerWrite reference None) (w\<lparr>ledger := ledger w @ [doc]\<rparr>)),
                Inr ())))"
  using assms new_Purchase_shape [OF assms]
  by (simp add: try_save_def save_def split: sum.splits)

lemma try_save_world:
  assumes "try_save env customer metadata reference amount cart w = (w1, r)"
  shows "outbox w1 = outbox w \<and> (\<exists>es. trace w1 = trace w @ es)"
  using assms
  by (auto simp: try_save_def save_def split: sum.splits prod.splits)

lemma try_save_trace:
  assumes "new_Purchase env customer metadata reference amount cart (now w) = Inr p"
    and "try_save env customer metadata reference amount cart w = (w1, r)"
  shows "\<exists>res rest. trace w1 = trace w @ LedgerWrite reference res # rest"
  using assms(2) unfolding try_save_cases [OF assms(1)]
  by (auto split: sum.splits)

lemma charge_success_after_save:
  assumes "destructure event = Inr (customer, metadata, reference, amount, cart)"
    and "try_save env customer metadata reference amount cart w = (w1, r)"
    and "charge_success env event w = (w2, out)"
  shows "ledger w2 = ledger w1 \<and> (\<exists>es. trace w2 = trace w1 @ es)
       \<and> (\<exists>ms. outbox w2 = outbox w1 @ ms)"
proof (cases r)
  case (Inr u)
  with assms have "fulfil env customer metadata cart w1 = (w2, out)"
    by (simp add: charge_success_def)
  then show ?thesis
    by (rule fulfil_world)
next
  case (Inl dbError)
  show ?thesis
  proof (cases "error_code dbError = Some 11000")
    case True
    with Inl assms show ?thesis
      by (auto simp: charge_success_def split: sum.splits)
  next
    case False
    with Inl assms
    have "fulfil env customer metadata cart (emit (Console (DatabaseSaveError dbError)) w1)
        = (w2, out)"
      by (simp add: charge_success_def)
    from fulfil_world [OF this] show ?thesis
      by auto
  qed
qed

text \<open>
  C6, as stated, fails: after logging the failure of the insert the handler writes the
  line of line 70, which converts \<^verbatim>\<open>customer.email\<close> outside every \<^verbatim>\<open>try\<close>.
  For the scenario with an object with a \<^verbatim>\<open>toString\<close> property as email the
  insert fails with an error that is no duplicate key and is logged, line 70 throws a
  TypeError, and the request ends there: no step of fulfilment is taken for the two
  units of the cart, no message is sent, no response is sent.
\<close>

theorem ledger_failure_crash_skips_fulfilment:
  "valid_signature stub_env (signed_req odd_email_body)
   \<and> JSON_parse stub_env (raw_body (signed_req odd_email_body)) = Some odd_email_event
   \<and> get_prop odd_email_event ''event'' = Inr (JStr ''charge.success'')
   \<and> destructure odd_email_event
       = Inr (odd_customer, jane_metadata, JStr ''ref-81'', JNum 500000, JArr [regular_line 2])
   \<and> error_code ValidationError \<noteq> Some 11000
   \<and> length (units stub_env [regular_line 2]) = 2
   \<and> paystack_webhook stub_env (signed_req odd_email_body) empty_world
       = (\<lparr>ledger = [], outbox = [],
           trace = [LedgerWrite (JStr ''ref-81'') (Some ValidationError),
                    Console (DatabaseSaveError ValidationError)]\<rparr>, Uncaught TypeError)"
  by code_simp

text \<open>
  C6, amended. When the Purchase document could be built, \<^verbatim>\<open>save()\<close> fails with
  an error whose code is not 11000 (validation, or the store cannot be reached), and
  \<^verbatim>\<open>customer.email\<close> can be converted to a string, the failure is written to the
  console and the handler goes on to the loops over the cart, which start from the
  world that holds the ledger step and the two console lines; the request ends as the
  loops do. When moreover every line of the cart is plain, the loops run the body on
  every unit of the cart and the request is answered with 200. The early return is taken
  for code 11000 only.
\<close>

theorem ledger_failure_still_fulfils:
  assumes "valid_signature env req"
    and "JSON_parse env (raw_body req) = Some event"
    and "get_prop event ''event'' = Inr (JStr ''charge.success'')"
    and "destructure event = Inr (customer, metadata, reference, amount, cart)"
    and "new_Purchase env customer metadata reference amount cart (now w) = Inr newPurchase"
    and "insert_outcome env newPurchase w = Inl dbError"
    and "error_code dbError \<noteq> Some 11000"
    and "get_prop customer ''email'' = Inr email"
    and "js_toString env email = Inr address"
    and "w3 = emit (Console (PaymentSuccessful address))
                (emit (Console (DatabaseSaveError dbError))
                   (emit (LedgerWrite reference (Some dbError)) w))"
  shows "\<exists>items.
           cart = JArr items \<and>
           paystack_webhook env req w = acknowledge (cart_loop env customer metadata items w3) \<and>
           Console (DatabaseSaveError dbError)
             \<in> set (trace (fst (paystack_webhook env req w))) \<and>
           (list_all (plain_line env) items \<longrightarrow>
              paystack_webhook env req w
                = (foldl (unit_step env customer metadata) w3 (units env items), Responded 200))"
proof -
  from new_Purchase_shape [OF assms(5)] obtain items where cart: "cart = JArr items"
    by auto
  have "try_save env customer metadata reference amount cart w
      = (emit (LedgerWrite reference (Some dbError)) w, Inl dbError)"
    using try_save_cases [OF assms(5)] assms(6) by simp
  then have "charge_success env event w
      = fulfil env customer metadata cart
          (emit (Console (DatabaseSaveError dbError))
             (emit (LedgerWrite reference (Some dbError)) w))"
    using assms(4,7) by (simp add: charge_success_def)
  then have run: "paystack_webhook env req w
      = acknowledge (cart_loop env customer metadata items w3)"
    using webhook_charge [OF assms(1-3)] cart assms(8-10) by (simp add: fulfil_def)
  obtain w' r where loop: "cart_loop env customer metadata items w3 = (w', r)"
    by (cases "cart_loop env customer metadata items w3")
  from cart_loop_world [OF loop] assms(10)
  have "Console (DatabaseSaveError dbError) \<in> set (trace w')"
    by auto
  then have logged: "Console (DatabaseSaveError dbError)
      \<in> set (trace (fst (paystack_webhook env req w)))"
    using run loop by (simp add: acknowledge_fst)
  have "paystack_webhook env req w
      = (foldl (unit_step env customer metadata) w3 (units env items), Responded 200)"
    if "list_all (plain_line env) items"
    using run cart_loop_fold [OF plain_lines_ok [OF that], of customer metadata w3] by simp
  with cart run logged show ?thesis
    by blast
qed

theorem ledger_failure_still_fulfils_witness:
  "valid_signature outage_env (signed_req paid_body)
   \<and> JSON_parse outage_env (raw_body (signed_req paid_body)) = Some paid_event
   \<and> get_prop paid_event ''event'' = Inr (JStr ''charge.success'')
   \<and> destructure paid_event
       = Inr (jane, jane_metadata, JStr ''abc123'', JNum 500000, JArr [regular_line 2])
   \<and> new_Purchase outage_env jane jane_metadata (JStr ''abc123'') (JNum 500000)
         (JArr [regular_line 2]) (now empty_world) = Inr jane_purchase
   \<and> insert_outcome outage_env jane_purchase empty_world = Inl MongoNetworkError
   \<and> error_code MongoNetworkError \<noteq> Some 11000
   \<and> get_prop jane ''email'' = Inr (JStr ''a@x.com'')
   \<and> js_toString outage_env (JStr ''a@x.com'') = Inr ''a@x.com''
   \<and> list_all (plain_line outage_env) [regular_line 2]
   \<and> paystack_webhook outage_env (signed_req paid_body) empty_world
       = (foldl (unit_step outage_env jane jane_metadata)
            (emit (Console (PaymentSuccessful ''a@x.com''))
               (emit (Console (DatabaseSaveError MongoNetworkError))
                  (emit (LedgerWrite (JStr ''abc123'') (Some MongoNetworkError)) empty_world)))
            (units outage_env [regular_line 2]),
          Responded 200)
   \<and> Console (DatabaseSaveError MongoNetworkError) \<in> set (trace outage_once)
   \<and> ledger outage_once = [] \<and> length (outbox outage_once) = 2"
proof -
  have h2: "JSON_parse outage_env (raw_body (signed_req paid_body)) = Some paid_event"
    by code_simp
  have h3: "get_prop paid_event ''event'' = Inr (JStr ''charge.success'')"
    by code_simp
  have h5: "new_Purchase outage_env jane jane_metadata (JStr ''abc123'') (JNum 500000)
         (JArr [regular_line 2]) (now empty_world) = Inr jane_purchase"
    by code_simp
  have h6: "insert_outcome outage_env jane_purchase empty_world = Inl MongoNetworkError"
    by code_simp
  have h7: "error_code MongoNetworkError \<noteq> Some 11000"
    by simp
  have h8: "get_prop jane ''email'' = Inr (JStr ''a@x.com'')"
    by (simp add: jane_def)
  have h9: "js_toString outage_env (JStr ''a@x.com'') = Inr ''a@x.com''"
    by simp
  have lo: "line_ok outage_env (regular_line 2)"
    by code_simp
  have lc: "line_count outage_env (regular_line 2) = 2"
    by code_simp
  have pl: "list_all (plain_line outage_env) [regular_line 2]"
    using lo lc by (simp add: plain_line_def)
  from ledger_failure_still_fulfils
    [OF signed_req_valid_outage h2 h3 paid_event_fields h5 h6 h7 h8 h9 refl]
  obtain items where c: "JArr [regular_line 2] = JArr items"
    and run: "list_all (plain_line outage_env) items \<longrightarrow>
       paystack_webhook outage_env (signed_req paid_body) empty_world
       = (foldl (unit_step outage_env jane jane_metadata)
            (emit (Console (PaymentSuccessful ''a@x.com''))
               (emit (Console (DatabaseSaveError MongoNetworkError))
                  (emit (LedgerWrite (JStr ''abc123'') (Some MongoNetworkError)) empty_world)))
            (units outage_env items),
          Responded 200)"
    by blast
  from c have "items = [regular_line 2]"
    by simp
  moreover have "ledger outage_once = []" and "length (outbox outage_once) = 2"
    and "Console (DatabaseSaveError MongoNetworkError) \<in> set (trace outage_once)"
    by code_simp+
  ultimately show ?thesis
    using signed_req_valid_outage h2 h3 paid_event_fields h5 h6 h7 h8 h9 pl run by simp
qed

lemma destructure_metadata:
  "destructure event = Inr (customer, metadata, reference, amount, cart) \<Longrightarrow> \<not> nullish metadata"
  by (auto simp: destructure_def split: sum.splits dest: get_prop_nullish)

lemma well_shaped_fields:
  assumes "well_shaped event"
  obtains customer metadata reference amount items
  where "destructure event = Inr (customer, metadata, reference, amount, JArr items)"
    and "\<not> nullish customer" and "\<not> nullish metadata"
    and "list_all (\<lambda>item. \<not> nullish item) items"
proof -
  from assms obtain customer metadata reference amount cart
    where d: "destructure event = Inr (customer, metadata, reference, amount, cart)"
    by (auto simp: well_shaped_def split: sum.splits)
  with assms obtain items where "cart = JArr items" "\<not> nullish customer"
    "list_all (\<lambda>item. \<not> nullish item) items"
    by (auto simp: well_shaped_def split: jsval.splits)
  with d destructure_metadata [OF d] that show ?thesis
    by blast
qed

text \<open>
  C9, as stated, fails: when a line of the cart is \<^verbatim>\<open>null\<close>, the callback of
  \<^verbatim>\<open>cart.map\<close> throws while the Purchase document is being built, inside the
  \<^verbatim>\<open>try\<close>, so \<^verbatim>\<open>save()\<close> is never called; the error is logged and the loops
  start. For a cart of one regular line followed by \<^verbatim>\<open>null\<close> the ticket of the
  first line is made and sent with no ledger write before it, or at all; the loops then
  end with a TypeError on the second line.
\<close>

theorem fulfilment_without_ledger_write:
  "valid_signature stub_env (signed_req null_line_body)
   \<and> JSON_parse stub_env (raw_body (signed_req null_line_body)) = Some null_line_event
   \<and> get_prop null_line_event ''event'' = Inr (JStr ''charge.success'')
   \<and> destructure null_line_event
       = Inr (jane, null_line_metadata, JStr ''ref-79'', JNum 250000,
              JArr [regular_line 1, JNull])
   \<and> no_ledger_write (trace (fst (paystack_webhook stub_env (signed_req null_line_body)
        empty_world)))
   \<and> take 3 (trace (fst (paystack_webhook stub_env (signed_req null_line_body) empty_world)))
       = [Console (DatabaseSaveError TypeError), Console (PaymentSuccessful ''a@x.com''),
          RandomBytes 4]
   \<and> length (outbox (fst (paystack_webhook stub_env (signed_req null_line_body)
        empty_world))) = 1
   \<and> ledger (fst (paystack_webhook stub_env (signed_req null_line_body) empty_world)) = []
   \<and> snd (paystack_webhook stub_env (signed_req null_line_body) empty_world)
       = Uncaught TypeError"
  by code_simp

text \<open>
  C9, amended. For a validly signed \<^verbatim>\<open>charge.success\<close> event from which the
  Purchase document can be built (\<^verbatim>\<open>data\<close> and \<^verbatim>\<open>metadata\<close> can be read,
  \<^verbatim>\<open>customer\<close> is not \<^verbatim>\<open>null\<close>, the cart is absent or an array with no
  \<^verbatim>\<open>null\<close> line), the first step the handler takes is the ledger write for the
  event's reference, recorded with how it completed: among the steps of this request it
  stands before the first step of any unit's fulfilment (random bytes, QR code,
  composition, dispatch, or the console line of a unit), however the request ends.
\<close>

theorem ledger_write_first:
  assumes "valid_signature env req"
    and "JSON_parse env (raw_body req) = Some event"
    and "get_prop event ''event'' = Inr (JStr ''charge.success'')"
    and "well_shaped event"
    and "destructure event = Inr (customer, metadata, reference, amount, cart)"
    and "new_events = drop (length (trace w)) (trace (fst (paystack_webhook env req w)))"
  shows "\<exists>res rest.
           new_events = LedgerWrite reference res # rest \<and>
           LedgerWrite reference res
             \<in> set (takeWhile (\<lambda>e. \<not> fulfilment_step e) new_events)"
proof -
  from assms(4,5) obtain items
    where d: "destructure event = Inr (customer, metadata, reference, amount, JArr items)"
      and c: "\<not> nullish customer" and m: "\<not> nullish metadata"
      and items: "list_all (\<lambda>item. \<not> nullish item) items"
    by (auto elim!: well_shaped_fields)
  from new_Purchase_ok [OF c m items] obtain p
    where p: "new_Purchase env customer metadata reference amount (JArr items) (now w) = Inr p"
    by blast
  obtain w1 r where ts: "try_save env customer metadata reference amount (JArr items) w = (w1, r)"
    by (cases "try_save env customer metadata reference amount (JArr items) w")
  obtain w2 out where cs: "charge_success env event w = (w2, out)"
    by (cases "charge_success env event w")
  from try_save_trace [OF p ts] obtain res rest
    where "trace w1 = trace w @ LedgerWrite reference res # rest"
    by blast
  moreover from charge_success_after_save [OF d ts cs] obtain es
    where "trace w2 = trace w1 @ es"
    by blast
  ultimately have "trace (fst (paystack_webhook env req w))
      = trace w @ LedgerWrite reference res # (rest @ es)"
    using webhook_charge [OF assms(1-3), of w] cs by simp
  with assms(6) have "new_events = LedgerWrite reference res # (rest @ es)"
    by simp
  then show ?thesis
    by simp
qed

theorem ledger_write_first_witness:
  "valid_signature stub_env (signed_req paid_body)
   \<and> JSON_parse stub_env (raw_body (signed_req paid_body)) = Some paid_event
   \<and> get_prop paid_event ''event'' = Inr (JStr ''charge.success'')
   \<and> well_shaped paid_event
   \<and> destructure paid_event
       = Inr (jane, jane_metadata, JStr ''abc123'', JNum 500000, JArr [regular_line 2])
   \<and> trace delivered_once
       = drop (length (trace empty_world))
           (trace (fst (paystack_webhook stub_env (signed_req paid_body) empty_world)))
   \<and> (\<exists>res rest.
         trace delivered_once = LedgerWrite (JStr ''abc123'') res # rest \<and>
         LedgerWrite (JStr ''abc123'') res
           \<in> set (takeWhile (\<lambda>e. \<not> fulfilment_step e) (trace delivered_once)))
   \<and> take 4 (trace delivered_once)
       = [LedgerWrite (JStr ''abc123'') None, Console (PurchaseSaved ''abc123''),
          Console (PaymentSuccessful ''a@x.com''), RandomBytes 4]"
proof -
  have h2: "JSON_parse stub_env (raw_body (signed_req paid_body)) = Some paid_event"
    by code_simp
  have h3: "get_prop paid_event ''event'' = Inr (JStr ''charge.success'')"
    by code_simp
  have h4: "well_shaped paid_event"
    by code_simp
  have h6: "trace delivered_once
       = drop (length (trace empty_world))
           (trace (fst (paystack_webhook stub_env (signed_req paid_body) empty_world)))"
    by (simp add: delivered_once_def empty_world_def)
  have t: "take 4 (trace delivered_once)
       = [LedgerWrite (JStr ''abc123'') None, Console (PurchaseSaved ''abc123''),
          Console (PaymentSuccessful ''a@x.com''), RandomBytes 4]"
    by code_simp
  show ?thesis
    using signed_req_valid h2 h3 h4 paid_event_fields h6 t
      ledger_write_first [OF signed_req_valid h2 h3 h4 paid_event_fields h6]
    by blast
qed

section \<open>Acknowledgment\<close>

lemma plain_event_fields:
  assumes "plain_event env event"
  obtains customer metadata reference amount items email address ref
  where "destructure event = Inr (customer, metadata, reference, amount, JArr items)"
    and "get_prop customer ''email'' = Inr email" and "js_toString env email = Inr address"
    and "js_toString env reference = Inr ref"
    and "list_all (plain_line env) items"
proof -
  from assms obtain customer metadata reference amount cart
    where d: "destructure event = Inr (customer, metadata, reference, amount, cart)"
    by (auto simp: plain_event_def split: sum.splits)
  with assms obtain items email where "cart = JArr items"
    "get_prop customer ''email'' = Inr email" "converts env email" "converts env reference"
    "list_all (plain_line env) items"
    by (auto simp: plain_event_def split: jsval.splits sum.splits)
  with d that show ?thesis
    by (auto simp: converts_iff)
qed

lemma plain_event_acknowledged:
  assumes "plain_event env event"
  shows "snd (charge_success env event w) = Responded 200"
proof -
  from assms obtain customer metadata reference amount items email address ref
    where d: "destructure event = Inr (customer, metadata, reference, amount, JArr items)"
      and email: "get_prop customer ''email'' = Inr email"
      and address: "js_toString env email = Inr address"
      and ref: "js_toString env reference = Inr ref"
      and items: "list_all (plain_line env) items"
    by (rule plain_event_fields)
  note f = fulfil_plain [OF email address plain_lines_ok [OF items]]
  show ?thesis
    using d ref f by (simp add: charge_success_def split: sum.splits prod.splits)
qed

lemma paid_event_plain: "plain_event stub_env paid_event"
proof -
  have lo: "line_ok stub_env (regular_line 2)"
    by code_simp
  have lc: "line_count stub_env (regular_line 2) = 2"
    by code_simp
  have "list_all (plain_line stub_env) [regular_line 2]"
    using lo lc by (simp add: plain_line_def)
  then show ?thesis
    by (simp add: plain_event_def paid_event_fields jane_def converts_def)
qed

text \<open>
  C4, as stated, fails: a validly signed body \<^verbatim>\<open>{"event":"charge.success"}\<close> has
  no \<^verbatim>\<open>data\<close>, the destructuring of line 46 throws a TypeError outside every
  \<^verbatim>\<open>try\<close>, and the handler ends with no response sent. The ledger is empty, so
  this is no duplicate delivery. Nor is the handler safe from the outcome of a unit:
  for the cart whose first line has no base image and an object with a
  \<^verbatim>\<open>toString\<close> property as name, the failure of the unit cannot be logged and the
  request ends with a TypeError. So do the requests whose \<^verbatim>\<open>customer.email\<close>
  (line 70) or whose quantity of a line (line 74) is such an object.
\<close>

theorem malformed_event_unacknowledged:
  "valid_signature stub_env (signed_req no_data_body)
   \<and> JSON_parse stub_env (raw_body (signed_req no_data_body)) = Some no_data_event
   \<and> ledger empty_world = []
   \<and> paystack_webhook stub_env (signed_req no_data_body) empty_world
       = (empty_world, Uncaught TypeError)
   \<and> valid_signature stub_env (signed_req odd_name_body)
   \<and> JSON_parse stub_env (raw_body (signed_req odd_name_body)) = Some odd_name_event
   \<and> snd (paystack_webhook stub_env (signed_req odd_name_body) empty_world)
       = Uncaught TypeError
   \<and> valid_signature stub_env (signed_req odd_email_body)
   \<and> JSON_parse stub_env (raw_body (signed_req odd_email_body)) = Some odd_email_event
   \<and> snd (paystack_webhook stub_env (signed_req odd_email_body) empty_world)
       = Uncaught TypeError
   \<and> valid_signature stub_env (signed_req odd_quantity_body)
   \<and> JSON_parse stub_env (raw_body (signed_req odd_quantity_body)) = Some odd_quantity_event
   \<and> snd (paystack_webhook stub_env (signed_req odd_quantity_body) empty_world)
       = Uncaught TypeError"
  by code_simp

text \<open>
  C4, amended. For every request that passes the signature check and whose body parses
  to an event that is not \<^verbatim>\<open>null\<close> and, when its type is \<^verbatim>\<open>charge.success\<close>,
  is plain, the handler completes without raising and answers 200, whatever the ledger
  and the single units do, duplicate delivery or not. Plain means: \<^verbatim>\<open>data\<close> and
  \<^verbatim>\<open>metadata\<close> can be read, \<^verbatim>\<open>customer.email\<close> can be read and converted
  to a string, the reference can be converted to a string (line 64 does so for a
  duplicate delivery), and the cart is absent or an array of lines whose names can be
  converted to strings and whose quantities can be converted to numbers, at most
  \<open>2 ^ 53\<close>.
\<close>

theorem plain_event_answered:
  assumes "valid_signature env req"
    and "JSON_parse env (raw_body req) = Some event"
    and "get_prop event ''event'' = Inr ev"
    and "ev = JStr ''charge.success'' \<longrightarrow> plain_event env event"
  shows "snd (paystack_webhook env req w) = Responded 200"
proof (cases "ev = JStr ''charge.success''")
  case False
  with assms(1-3) show ?thesis
    by (auto simp: paystack_webhook_def valid_signature_def split: sum.splits)
next
  case True
  with assms(4) have "plain_event env event"
    by simp
  then have "snd (charge_success env event w) = Responded 200"
    by (rule plain_event_acknowledged)
  then show ?thesis
    using webhook_charge [of env req event w] assms(1-3) True by simp
qed

theorem plain_event_answered_witness:
  "valid_signature stub_env (signed_req paid_body)
   \<and> JSON_parse stub_env (raw_body (signed_req paid_body)) = Some paid_event
   \<and> get_prop paid_event ''event'' = Inr (JStr ''charge.success'')
   \<and> plain_event stub_env paid_event
   \<and> snd (paystack_webhook stub_env (signed_req paid_body) empty_world) = Responded 200"
proof -
  have h2: "JSON_parse stub_env (raw_body (signed_req paid_body)) = Some paid_event"
    by code_simp
  have h3: "get_prop paid_event ''event'' = Inr (JStr ''charge.success'')"
    by code_simp
  note pe = paid_event_plain
  then have h4: "JStr ''charge.success'' = JStr ''charge.success'' \<longrightarrow> plain_event stub_env paid_event"
    by simp
  show ?thesis
    using signed_req_valid h2 h3 pe
      plain_event_answered [OF signed_req_valid h2 h3 h4, of empty_world]
    by blast
qed

section \<open>Redelivery\<close>

lemma validate_reference:
  assumes "validate env p = Some doc"
    and "buyerName p' = buyerName p" and "buyerEmail p' = buyerEmail p"
    and "inventory p' = inventory p" and "totalAmount p' = totalAmount p"
    and "paystackReference p' = paystackReference p"
  shows "\<exists>doc'. validate env p' = Some doc' \<and> paystackReference doc' = paystackReference doc"
  using assms by (auto simp: validate_def split: option.splits)

lemma new_Purchase_later:
  assumes "new_Purchase env customer metadata reference amount cart t = Inr p"
  shows "\<exists>p'. new_Purchase env customer metadata reference amount cart t' = Inr p'
           \<and> buyerName p' = buyerName p \<and> buyerEmail p' = buyerEmail p
           \<and> inventory p' = inventory p \<and> totalAmount p' = totalAmount p
           \<and> paystackReference p' = paystackReference p"
  using assms by (auto simp: new_Purchase_def split: sum.splits)

lemma insert_outcome_validate:
  "insert_outcome env p w = Inr doc \<Longrightarrow>
     validate env p = Some doc \<and> paystackReference doc \<notin> set (map paystackReference (ledger w))"
  by (auto simp: insert_outcome_def split: option.splits if_splits)

lemma webhook_ledger_changed:
  assumes "paystack_webhook env req w = (w1, r)" and "ledger w1 \<noteq> ledger w"
  obtains event where "valid_signature env req"
    and "JSON_parse env (raw_body req) = Some event"
    and "get_prop event ''event'' = Inr (JStr ''charge.success'')"
    and "charge_success env event w = (w1, r)"
  using assms
  by (auto simp: paystack_webhook_def valid_signature_def Let_def
      split: if_splits option.splits sum.splits)

lemma charge_ledger_changed:
  assumes "charge_success env event w = (w1, r)" and "ledger w1 \<noteq> ledger w"
    and "destructure event = Inr (customer, metadata, reference, amount, cart)"
  obtains p doc
  where "new_Purchase env customer metadata reference amount cart (now w) = Inr p"
    and "insert_outcome env p w = Inr doc"
    and "ledger w1 = ledger w @ [doc]"
proof -
  obtain ws res
    where ts: "try_save env customer metadata reference amount cart w = (ws, res)"
    by (cases "try_save env customer metadata reference amount cart w")
  from charge_success_after_save [OF assms(3) ts assms(1)]
  have l: "ledger w1 = ledger ws"
    by simp
  have not_throw: "\<exists>p. new_Purchase env customer metadata reference amount cart (now w) = Inr p"
  proof (rule ccontr)
    assume "\<not> ?thesis"
    then obtain e where "new_Purchase env customer metadata reference amount cart (now w) = Inl e"
      by (cases "new_Purchase env customer metadata reference amount cart (now w)") auto
    then have "try_save env customer metadata reference amount cart w = (w, Inl e)"
      by (simp add: try_save_def)
    with ts l assms(2) show False
      by simp
  qed
  then obtain p
    where p: "new_Purchase env customer metadata reference amount cart (now w) = Inr p"
    by blast
  show ?thesis
  proof (cases "insert_outcome env p w")
    case (Inl e)
    with ts l assms(2) have False
      by (auto simp: try_save_cases [OF p])
    then show ?thesis ..
  next
    case (Inr doc)
    with ts l have "ledger w1 = ledger w @ [doc]"
      by (auto simp: try_save_cases [OF p] split: sum.splits)
    with that p Inr show ?thesis
      by blast
  qed
qed

text \<open>
  A reference that the schema accepts need not be one that a template literal can
  convert: the cast is the library's. With a cast that takes the \<^verbatim>\<open>_id\<close> of an
  object, the event below is recorded under \<^verbatim>\<open>ref-83\<close> by its first delivery,
  where the error of line 59 is caught and logged; on the second delivery the insert
  fails on the unique key, line 64 throws a TypeError in the \<^verbatim>\<open>catch\<close> block,
  and the request ends with no response.
\<close>

lemma recorded_reference_not_converted:
  "valid_signature id_cast_env (signed_req id_reference_body)
   \<and> JSON_parse id_cast_env (raw_body (signed_req id_reference_body)) = Some id_reference_event
   \<and> paystack_webhook id_cast_env (signed_req id_reference_body) empty_world
       = (id_once, Responded 200)
   \<and> map paystackReference (ledger id_once) = [JStr ''ref-83'']
   \<and> trace id_once
       = [LedgerWrite id_reference None, Console (DatabaseSaveError TypeError),
          Console (PaymentSuccessful ''a@x.com'')]
   \<and> \<not> store_down id_cast_env (now id_once)
   \<and> js_toString id_cast_env id_reference = Inl TypeError
   \<and> paystack_webhook id_cast_env (signed_req id_reference_body) id_once
       = (emit (LedgerWrite id_reference (Some (MongoServerError 11000))) id_once,
          Uncaught TypeError)"
  by code_simp

text \<open>
  C1, as stated, fails: while the store cannot be reached, \<^verbatim>\<open>save()\<close> fails with an
  error other than the duplicate key, which the handler only writes to the console. Two
  deliveries of the scenario then leave no Purchase at all and send the two tickets
  twice: four messages; on the second delivery the insert does not fail on the unique key
  and the units are fulfilled again.
\<close>

theorem outage_redelivery_duplicates:
  "valid_signature outage_env (signed_req paid_body)
   \<and> paystack_webhook outage_env (signed_req paid_body) empty_world
       = (outage_once, Responded 200)
   \<and> paystack_webhook outage_env (signed_req paid_body) outage_once
       = (outage_twice, Responded 200)
   \<and> ledger outage_twice = []
   \<and> length (outbox outage_once) = 2
   \<and> length (outbox outage_twice) = 4
   \<and> LedgerWrite (JStr ''abc123'') (Some MongoNetworkError)
       = trace outage_twice ! length (trace outage_once)"
  by code_simp

text \<open>
  C1, amended. Take an event whose reference can be converted to a string \<open>R\<close>. If a
  first delivery inserts its Purchase (the ledger has changed), and the store can be
  reached when the same request is delivered again, then the second insert fails on the
  unique key (code 11000) and the second delivery is answered with 200 and does nothing
  but record that and one console line: it changes neither the ledger nor the outbox.
  After both, the ledger of the start has grown by one document, the only one with its
  reference. The first delivery is answered with 200 when the event is plain.
\<close>

theorem redelivery_after_recorded:
  assumes "paystack_webhook env req w0 = (w1, r1)"
    and "ledger w1 \<noteq> ledger w0"
    and "\<not> store_down env (now w1)"
    and "paystack_webhook env req w1 = (w2, r2)"
    and "JSON_parse env (raw_body req) = Some event"
    and "destructure event = Inr (customer, metadata, reference, amount, cart)"
    and "js_toString env reference = Inr R"
  shows "r2 = Responded 200 \<and>
         ledger w2 = ledger w1 \<and> outbox w2 = outbox w1 \<and>
         (\<exists>doc.
            ledger w2 = ledger w0 @ [doc] \<and>
            length (filter (\<lambda>p. paystackReference p = paystackReference doc) (ledger w2)) = 1) \<and>
         trace w2 = trace w1 @ [LedgerWrite reference (Some (MongoServerError 11000)),
                                Console (AlreadyProcessed R)] \<and>
         (plain_event env event \<longrightarrow> r1 = Responded 200)"
proof -
  from assms(1,2) obtain event'
    where sig: "valid_signature env req"
      and parse: "JSON_parse env (raw_body req) = Some event'"
      and ty: "get_prop event' ''event'' = Inr (JStr ''charge.success'')"
      and first': "charge_success env event' w0 = (w1, r1)"
    by (rule webhook_ledger_changed)
  from parse assms(5) have "event' = event"
    by simp
  with ty first' have ty: "get_prop event ''event'' = Inr (JStr ''charge.success'')"
    and first: "charge_success env event w0 = (w1, r1)"
    by simp_all
  from first assms(2,6) obtain p doc
    where p: "new_Purchase env customer metadata reference amount cart (now w0) = Inr p"
      and ins: "insert_outcome env p w0 = Inr doc"
      and l1: "ledger w1 = ledger w0 @ [doc]"
    by (rule charge_ledger_changed)
  from insert_outcome_validate [OF ins]
  have v: "validate env p = Some doc"
    and fresh: "paystackReference doc \<notin> set (map paystackReference (ledger w0))"
    by simp_all
  from new_Purchase_later [OF p, of "now w1"] obtain p'
    where p': "new_Purchase env customer metadata reference amount cart (now w1) = Inr p'"
      and same: "buyerName p' = buyerName p" "buyerEmail p' = buyerEmail p"
        "inventory p' = inventory p" "totalAmount p' = totalAmount p"
        "paystackReference p' = paystackReference p"
    by blast
  from validate_reference [OF v same] obtain doc'
    where v': "validate env p' = Some doc'"
      and ref: "paystackReference doc' = paystackReference doc"
    by blast
  have dup: "insert_outcome env p' w1 = Inl (MongoServerError 11000)"
    using v' ref l1 assms(3) by (simp add: insert_outcome_def)
  have "try_save env customer metadata reference amount cart w1
      = (emit (LedgerWrite reference (Some (MongoServerError 11000))) w1,
         Inl (MongoServerError 11000))"
    using dup by (simp add: try_save_cases [OF p'])
  then have "charge_success env event w1
      = (emit (Console (AlreadyProcessed R))
           (emit (LedgerWrite reference (Some (MongoServerError 11000))) w1), Responded 200)"
    using assms(6,7) by (simp add: charge_success_def)
  with assms(4) webhook_charge [OF sig assms(5) ty, of w1]
  have w2: "w2 = emit (Console (AlreadyProcessed R))
           (emit (LedgerWrite reference (Some (MongoServerError 11000))) w1)"
    and r2: "r2 = Responded 200"
    by simp_all
  have one: "length (filter (\<lambda>p. paystackReference p = paystackReference doc) (ledger w0 @ [doc])) = 1"
    using fresh by (auto simp: filter_empty_conv image_iff)
  have r1: "r1 = Responded 200" if "plain_event env event"
    using plain_event_acknowledged [OF that, of w0] first by simp
  show ?thesis
    using r1 r2 w2 l1 one by simp
qed

theorem redelivery_after_recorded_witness:
  "paystack_webhook stub_env (signed_req paid_body) empty_world
       = (delivered_once, Responded 200)
   \<and> ledger delivered_once \<noteq> ledger empty_world
   \<and> \<not> store_down stub_env (now delivered_once)
   \<and> paystack_webhook stub_env (signed_req paid_body) delivered_once
       = (delivered_twice, Responded 200)
   \<and> JSON_parse stub_env (raw_body (signed_req paid_body)) = Some paid_event
   \<and> destructure paid_event
       = Inr (jane, jane_metadata, JStr ''abc123'', JNum 500000, JArr [regular_line 2])
   \<and> js_toString stub_env (JStr ''abc123'') = Inr ''abc123''
   \<and> plain_event stub_env paid_event
   \<and> ledger delivered_twice = ledger delivered_once
   \<and> outbox delivered_twice = outbox delivered_once
   \<and> (\<exists>doc.
         ledger delivered_twice = ledger empty_world @ [doc] \<and>
         length (filter (\<lambda>p. paystackReference p = paystackReference doc)
                   (ledger delivered_twice)) = 1)
   \<and> trace delivered_twice
       = trace delivered_once @ [LedgerWrite (JStr ''abc123'') (Some (MongoServerError 11000)),
                                 Console (AlreadyProcessed ''abc123'')]
   \<and> length (ledger delivered_twice) = 1
   \<and> length (outbox delivered_twice) = 2"
proof -
  have h1: "paystack_webhook stub_env (signed_req paid_body) empty_world
       = (delivered_once, Responded 200)"
    by code_simp
  have h2: "ledger delivered_once \<noteq> ledger empty_world"
    by code_simp
  have h3: "\<not> store_down stub_env (now delivered_once)"
    by code_simp
  have h4: "paystack_webhook stub_env (signed_req paid_body) delivered_once
       = (delivered_twice, Responded 200)"
    by code_simp
  have h5: "JSON_parse stub_env (raw_body (signed_req paid_body)) = Some paid_event"
    by code_simp
  have h7: "js_toString stub_env (JStr ''abc123'') = Inr ''abc123''"
    by simp
  have n: "length (ledger delivered_twice) = 1" "length (outbox delivered_twice) = 2"
    by code_simp+
  show ?thesis
    using h1 h2 h3 h4 h5 paid_event_fields h7 paid_event_plain n
      redelivery_after_recorded [OF h1 h2 h3 h4 h5 paid_event_fields h7]
    by blast
qed

section \<open>An event with no cart\<close>

lemma destructure_cart:
  assumes "destructure event = Inr (customer, metadata, reference, amount, cart)"
  obtains c where "get_prop metadata ''cart'' = Inr c"
    and "cart = (if truthy c then c else JArr [])"
  using assms by (auto simp: destructure_def split: sum.splits)

lemma validate_inventory:
  "validate env p = Some doc \<Longrightarrow> inventory p = [] \<Longrightarrow> inventory doc = []"
  by (auto simp: validate_def split: option.splits)

text \<open>
  C10, as stated, fails: an event with no cart is not always persisted. With
  \<^verbatim>\<open>"metadata":{}\<close> there is no \<^verbatim>\<open>full_name\<close> either, the required path
  \<^verbatim>\<open>buyerName\<close> fails validation and nothing is stored; and while the store cannot
  be reached nothing is stored for the event that lacks only the cart. Both requests are
  answered with 200 and send no message. Nor is such an event always answered: with an
  object with a \<^verbatim>\<open>toString\<close> property as \<^verbatim>\<open>customer.email\<close>, line 70 throws a
  TypeError and the request ends with no response.
\<close>

theorem no_cart_not_persisted:
  "valid_signature stub_env (signed_req bare_body)
   \<and> JSON_parse stub_env (raw_body (signed_req bare_body)) = Some bare_event
   \<and> destructure bare_event = Inr (jane, JObj [], JStr ''ref-78'', JNum 150000, JArr [])
   \<and> get_prop (JObj []) ''cart'' = Inr JUndefined
   \<and> paystack_webhook stub_env (signed_req bare_body) empty_world
       = (\<lparr>ledger = [], outbox = [],
           trace = [LedgerWrite (JStr ''ref-78'') (Some ValidationError),
                    Console (DatabaseSaveError ValidationError),
                    Console (PaymentSuccessful ''a@x.com'')]\<rparr>, Responded 200)
   \<and> valid_signature outage_env (signed_req no_cart_body)
   \<and> JSON_parse outage_env (raw_body (signed_req no_cart_body)) = Some no_cart_event
   \<and> paystack_webhook outage_env (signed_req no_cart_body) empty_world
       = (\<lparr>ledger = [], outbox = [],
           trace = [LedgerWrite (JStr ''ref-77'') (Some MongoNetworkError),
                    Console (DatabaseSaveError MongoNetworkError),
                    Console (PaymentSuccessful ''a@x.com'')]\<rparr>, Responded 200)
   \<and> valid_signature stub_env (signed_req odd_email_no_cart_body)
   \<and> JSON_parse stub_env (raw_body (signed_req odd_email_no_cart_body))
       = Some odd_email_no_cart_event
   \<and> snd (paystack_webhook stub_env (signed_req odd_email_no_cart_body) empty_world)
       = Uncaught TypeError
   \<and> ledger (fst (paystack_webhook stub_env (signed_req odd_email_no_cart_body) empty_world))
       = []"
  by code_simp

text \<open>
  C10, amended. For a validly signed \<^verbatim>\<open>charge.success\<close> event whose metadata has no
  \<^verbatim>\<open>cart\<close> field, for which the Purchase document can be built and whose
  \<^verbatim>\<open>customer.email\<close> and reference can be converted to strings, the document has
  the event's reference and an empty inventory; when the ledger accepts the insert it is
  persisted, with empty inventory, and otherwise the ledger is unchanged. In both cases
  no message is sent, no step of fulfilment is taken, and the answer is 200.
\<close>

theorem no_cart_event_handled:
  assumes "valid_signature env req"
    and "JSON_parse env (raw_body req) = Some event"
    and "get_prop event ''event'' = Inr (JStr ''charge.success'')"
    and "destructure event = Inr (customer, metadata, reference, amount, cart)"
    and "get_prop metadata ''cart'' = Inr JUndefined"
    and "new_Purchase env customer metadata reference amount cart (now w) = Inr newPurchase"
    and "get_prop customer ''email'' = Inr email"
    and "js_toString env email = Inr address"
    and "js_toString env reference = Inr ref"
    and "paystack_webhook env req w = (w', r)"
  shows "r = Responded 200 \<and> outbox w' = outbox w \<and>
         list_all (\<lambda>e. \<not> fulfilment_step e) (drop (length (trace w)) (trace w')) \<and>
         inventory newPurchase = [] \<and> paystackReference newPurchase = reference \<and>
         (case insert_outcome env newPurchase w of
            Inr doc \<Rightarrow> ledger w' = ledger w @ [doc] \<and> inventory doc = []
          | Inl e \<Rightarrow> ledger w' = ledger w)"
proof -
  from assms(4,5) have cart: "cart = JArr []"
    by (auto elim!: destructure_cart)
  from new_Purchase_shape [OF assms(6)]
  have ref: "paystackReference newPurchase = reference"
    by simp
  have inv: "inventory newPurchase = []"
    using assms(6) cart by (auto simp: new_Purchase_def cart_map_def split: sum.splits)
  have f: "fulfil env customer metadata (JArr []) v
      = (emit (Console (PaymentSuccessful address)) v, Responded 200)" for v
    using assms(7,8) by (simp add: fulfil_def)
  note ts = try_save_cases [OF assms(6) [unfolded cart]]
  have run: "charge_success env event w = (w', r)"
    using assms(10) webhook_charge [OF assms(1-3), of w] by simp
  show ?thesis
  proof (cases "insert_outcome env newPurchase w")
    case (Inl e)
    with run ts f inv ref assms(4,9) cart show ?thesis
      by (auto simp: charge_success_def split: if_splits)
  next
    case (Inr doc)
    from insert_outcome_validate [OF Inr] inv have "inventory doc = []"
      using validate_inventory by blast
    with Inr run ts f inv ref assms(4,9) cart show ?thesis
      by (auto simp: charge_success_def)
  qed
qed

theorem no_cart_event_handled_witness:
  "valid_signature stub_env (signed_req no_cart_body)
   \<and> JSON_parse stub_env (raw_body (signed_req no_cart_body)) = Some no_cart_event
   \<and> get_prop no_cart_event ''event'' = Inr (JStr ''charge.success'')
   \<and> destructure no_cart_event
       = Inr (jane, JObj [(''full_name'', JStr ''Jane Doe'')], JStr ''ref-77'', JNum 150000,
              JArr [])
   \<and> get_prop (JObj [(''full_name'', JStr ''Jane Doe'')]) ''cart'' = Inr JUndefined
   \<and> new_Purchase stub_env jane (JObj [(''full_name'', JStr ''Jane Doe'')]) (JStr ''ref-77'')
         (JNum 150000) (JArr []) (now empty_world)
       = Inr \<lparr>buyerName = JStr ''Jane Doe'', buyerEmail = JStr ''a@x.com'', inventory = [],
              totalAmount = JNum 150000, paystackReference = JStr ''ref-77'',
              purchaseDate = 0\<rparr>
   \<and> get_prop jane ''email'' = Inr (JStr ''a@x.com'')
   \<and> js_toString stub_env (JStr ''a@x.com'') = Inr ''a@x.com''
   \<and> js_toString stub_env (JStr ''ref-77'') = Inr ''ref-77''
   \<and> paystack_webhook stub_env (signed_req no_cart_body) empty_world
       = (\<lparr>ledger = [\<lparr>buyerName = JStr ''Jane Doe'', buyerEmail = JStr ''a@x.com'',
                       inventory = [], totalAmount = JNum 150000,
                       paystackReference = JStr ''ref-77'', purchaseDate = 0\<rparr>],
           outbox = [],
           trace = [LedgerWrite (JStr ''ref-77'') None,
                    Console (PurchaseSaved ''ref-77''),
                    Console (PaymentSuccessful ''a@x.com'')]\<rparr>, Responded 200)"
proof -
  let ?m = "JObj [(''full_name'', JStr ''Jane Doe'')]"
  let ?p = "\<lparr>buyerName = JStr ''Jane Doe'', buyerEmail = JStr ''a@x.com'', inventory = [],
              totalAmount = JNum 150000, paystackReference = JStr ''ref-77'',
              purchaseDate = 0\<rparr>"
  let ?w = "\<lparr>ledger = [?p], outbox = [],
           trace = [LedgerWrite (JStr ''ref-77'') None,
                    Console (PurchaseSaved ''ref-77''),
                    Console (PaymentSuccessful ''a@x.com'')]\<rparr>"
  have h2: "JSON_parse stub_env (raw_body (signed_req no_cart_body)) = Some no_cart_event"
    by code_simp
  have h3: "get_prop no_cart_event ''event'' = Inr (JStr ''charge.success'')"
    by code_simp
  have h4: "destructure no_cart_event
       = Inr (jane, ?m, JStr ''ref-77'', JNum 150000, JArr [])"
    by code_simp
  have h5: "get_prop ?m ''cart'' = Inr JUndefined"
    by simp
  have h6: "new_Purchase stub_env jane ?m (JStr ''ref-77'') (JNum 150000) (JArr [])
         (now empty_world) = Inr ?p"
    by code_simp
  have h7: "get_prop jane ''email'' = Inr (JStr ''a@x.com'')"
    by (simp add: jane_def)
  have h8: "js_toString stub_env (JStr ''a@x.com'') = Inr ''a@x.com''"
    by simp
  have h9: "js_toString stub_env (JStr ''ref-77'') = Inr ''ref-77''"
    by simp
  have h10: "paystack_webhook stub_env (signed_req no_cart_body) empty_world
       = (?w, Responded 200)"
    by code_simp
  from no_cart_event_handled [OF signed_req_valid h2 h3 h4 h5 h6 h7 h8 h9 h10]
  have "outbox ?w = outbox empty_world"
    by simp
  then show ?thesis
    using signed_req_valid h2 h3 h4 h5 h6 h7 h8 h9 h10 by blast
qed

end
